theory Spec2Isabelle
  imports Main
begin

section \<open>Python values\<close>

text \<open>
  The settings of a Pylon instance are read from YAML, so a value is a scalar or a
  mapping. Sequences and floats do not occur in the sections the route registrar reads
  and are left out of the value type. A mapping keeps its entries in insertion order, as
  a Python dictionary does; its keys are strings, each at most once (a lookup in a list
  that repeats a key takes the first entry). A \<^typ>\<open>string\<close> stands for a Python
  string whose code points are all below 256.
\<close>

datatype pyval =
    PNone
  | PBool bool
  | PInt int
  | PStr string
  | PDict "(string \<times> pyval) list"

datatype py_error = AttributeError | RedisError

datatype outcome = Returned | Raised py_error

text \<open>Truth value of an object, as \<^verbatim>\<open>if not x\<close> tests it.\<close>

fun truthy :: "pyval \<Rightarrow> bool" where
  "truthy PNone = False"
| "truthy (PBool b) = b"
| "truthy (PInt i) = (i \<noteq> 0)"
| "truthy (PStr s) = (s \<noteq> [])"
| "truthy (PDict kvs) = (kvs \<noteq> [])"

text \<open>\<^verbatim>\<open>d.get(key, default)\<close> on a dictionary, and \<^verbatim>\<open>key in d\<close>.\<close>

definition dict_get :: "(string \<times> pyval) list \<Rightarrow> string \<Rightarrow> pyval \<Rightarrow> pyval" where
  "dict_get d k dflt = (case map_of d k of None \<Rightarrow> dflt | Some v \<Rightarrow> v)"

definition dict_contains :: "(string \<times> pyval) list \<Rightarrow> string \<Rightarrow> bool" where
  "dict_contains d k = (map_of d k \<noteq> None)"

text \<open>
  \<^verbatim>\<open>x.get(key, default)\<close> on an arbitrary object: only a dictionary has the method,
  every other value of the type raises AttributeError.
\<close>

fun py_get :: "pyval \<Rightarrow> string \<Rightarrow> pyval \<Rightarrow> py_error + pyval" where
  "py_get (PDict d) k dflt = Inr (dict_get d k dflt)"
| "py_get _ k dflt = Inl AttributeError"

subsection \<open>Formatting inside an f-string\<close>

definition digit_char :: "nat \<Rightarrow> char" where
  "digit_char d = ''0123456789abcdef'' ! d"

function nat_digits :: "nat \<Rightarrow> string" where
  "nat_digits n =
     (if n < 10 then [digit_char n] else nat_digits (n div 10) @ [digit_char (n mod 10)])"
  by pat_completeness auto
termination
  by (relation "measure id") auto

declare nat_digits.simps [simp del]

definition str_int :: "int \<Rightarrow> string" where
  "str_int i = (if i < 0 then CHR ''-'' # nat_digits (nat (- i)) else nat_digits (nat i))"

text \<open>
  \<^verbatim>\<open>repr\<close> of a string: single quotes unless the string holds a single quote and no
  double quote; the quote and the backslash are escaped, tab, newline and carriage return
  are written with their letters, and a code point that is not printable (below 32, from
  127 to 160, and 173) is written as \<^verbatim>\<open>\xhh\<close>.
\<close>

definition hex_escape :: "nat \<Rightarrow> string" where
  "hex_escape n = [CHR 0x5C, CHR ''x'', digit_char (n div 16), digit_char (n mod 16)]"

definition repr_char :: "char \<Rightarrow> char \<Rightarrow> string" where
  "repr_char quote c =
     (let n = (of_char c :: nat) in
      if c = quote \<or> c = CHR 0x5C then [CHR 0x5C, c]
      else if c = CHR 0x09 then [CHR 0x5C, CHR ''t'']
      else if c = CHR 0x0A then [CHR 0x5C, CHR ''n'']
      else if c = CHR 0x0D then [CHR 0x5C, CHR ''r'']
      else if n < 32 \<or> n = 127 then hex_escape n
      else if n < 127 then [c]
      else if n \<le> 160 \<or> n = 173 then hex_escape n
      else [c])"

definition repr_str :: "string \<Rightarrow> string" where
  "repr_str s =
     (let quote = (if CHR 0x27 \<in> set s \<and> CHR 0x22 \<notin> set s then CHR 0x22 else CHR 0x27)
      in quote # concat (map (repr_char quote) s) @ [quote])"

fun join :: "string \<Rightarrow> string list \<Rightarrow> string" where
  "join sep [] = []"
| "join sep [x] = x"
| "join sep (x # y # ys) = x @ sep @ join sep (y # ys)"

fun py_repr :: "pyval \<Rightarrow> string" where
  "py_repr PNone = ''None''"
| "py_repr (PBool b) = (if b then ''True'' else ''False'')"
| "py_repr (PInt i) = str_int i"
| "py_repr (PStr s) = repr_str s"
| "py_repr (PDict kvs) =
     ''{'' @ join '', '' (map (\<lambda>(k, v). repr_str k @ '': '' @ py_repr v) kvs) @ ''}''"

text \<open>
  What \<^verbatim>\<open>f"{x}"\<close> puts into the string: \<^verbatim>\<open>str(x)\<close>, which is the string itself for
  a string and \<^verbatim>\<open>repr(x)\<close> for the other values of the type.
\<close>

fun py_str :: "pyval \<Rightarrow> string" where
  "py_str (PStr s) = s"
| "py_str v = py_repr v"

section \<open>The context, the environment and the outside world\<close>

text \<open>
  The fields of the context object that the registrar reads and writes.
  \<^verbatim>\<open>settings\<close> is the dictionary loaded at start-up.
\<close>

record Context =
  debug :: bool
  settings :: "(string \<times> pyval) list"
  node_name :: pyval
  traefik_redis_keys :: "string list"

text \<open>
  What the registrar reads from the process: \<^verbatim>\<open>os.environ.get("WERKZEUG_RUN_MAIN")\<close>,
  \<^verbatim>\<open>socket.gethostname()\<close>, and the constant \<^verbatim>\<open>constants.SERVER_DEFAULT_PORT\<close>, whose
  module is not among the sources and which is therefore a parameter.
\<close>

record environment =
  WERKZEUG_RUN_MAIN :: "string option"
  gethostname :: string
  SERVER_DEFAULT_PORT :: pyval

datatype log_entry = Log_info string "pyval list" | Log_error string "pyval list"

text \<open>
  The calls made on the Redis client library, in the order they are made, each with its
  arguments. A call that raises is recorded as well: it was attempted.
\<close>

datatype redis_call =
    StrictRedis_init pyval pyval
  | Store_set string pyval
  | Store_delete string

text \<open>
  The world outside the process: the content of the store at each host, the calls made
  so far, the log, and which calls raise. \<^verbatim>\<open>raises w h c\<close> says that call \<^verbatim>\<open>c\<close>,
  made after the calls \<^verbatim>\<open>h\<close>, raises instead of returning; it stands for the network
  and the server, which the code does not control. A call that raises leaves the store
  as it was. The store keeps a value as the caller passed it.
\<close>

record world =
  servers :: "pyval \<Rightarrow> string \<rightharpoonup> pyval"
  calls :: "redis_call list"
  logged :: "log_entry list"
  raises :: "redis_call list \<Rightarrow> redis_call \<Rightarrow> bool"

definition log_info :: "string \<Rightarrow> pyval list \<Rightarrow> world \<Rightarrow> world" where
  "log_info msg args w = w\<lparr>logged := logged w @ [Log_info msg args]\<rparr>"

definition log_error :: "string \<Rightarrow> pyval list \<Rightarrow> world \<Rightarrow> world" where
  "log_error msg args w = w\<lparr>logged := logged w @ [Log_error msg args]\<rparr>"

text \<open>The client object: the host and password it was built with.\<close>

record redis_client =
  client_host :: pyval
  client_password :: pyval

text \<open>Building the client performs no input or output and does not raise.\<close>

definition StrictRedis :: "pyval \<Rightarrow> pyval \<Rightarrow> world \<Rightarrow> redis_client \<times> world" where
  "StrictRedis h p w =
     (\<lparr>client_host = h, client_password = p\<rparr>, w\<lparr>calls := calls w @ [StrictRedis_init h p]\<rparr>)"

definition store_set :: "redis_client \<Rightarrow> string \<Rightarrow> pyval \<Rightarrow> world \<Rightarrow> outcome \<times> world" where
  "store_set store k v w =
     (let w1 = w\<lparr>calls := calls w @ [Store_set k v]\<rparr> in
      if raises w (calls w) (Store_set k v) then (Raised RedisError, w1)
      else (Returned,
            w1\<lparr>servers := (servers w)(client_host store := (servers w (client_host store))(k \<mapsto> v))\<rparr>))"

text \<open>
  \<^verbatim>\<open>delete\<close> returns the number of keys it removed: 0 when the key was not in the
  store, which is a result and not an exception.
\<close>

definition store_delete :: "redis_client \<Rightarrow> string \<Rightarrow> world \<Rightarrow> (py_error + nat) \<times> world" where
  "store_delete store k w =
     (let w1 = w\<lparr>calls := calls w @ [Store_delete k]\<rparr> in
      if raises w (calls w) (Store_delete k) then (Inl RedisError, w1)
      else (Inr (if servers w (client_host store) k = None then 0 else 1),
            w1\<lparr>servers := (servers w)(client_host store := (servers w (client_host store))(k := None))\<rparr>))"

section \<open>The route registrar\<close>

text \<open>
  Lines 55 to 60 of \<^verbatim>\<open>register_traefik_route\<close>: the URL under which the instance is
  registered, from the proxy section, the local host name and the local port.
\<close>

definition resolve_node_url :: "(string \<times> pyval) list \<Rightarrow> string \<Rightarrow> pyval \<Rightarrow> pyval" where
  "resolve_node_url traefik_config local_hostname local_port =
     (if dict_contains traefik_config ''node_url'' then dict_get traefik_config ''node_url'' PNone
      else if dict_contains traefik_config ''node_hostname'' then
        PStr (''http://'' @ py_str (dict_get traefik_config ''node_hostname'' PNone) @ '':''
              @ py_str local_port)
      else PStr (''http://'' @ local_hostname @ '':'' @ py_str local_port))"

text \<open>
  \<^verbatim>\<open>register_traefik_route(context)\<close>. The result is how the call ended (returned, or
  raised), the context and the world as the call left them: an exception does not undo
  the assignments and the writes made before it.
\<close>

definition register_traefik_route ::
  "environment \<Rightarrow> Context \<Rightarrow> world \<Rightarrow> outcome \<times> Context \<times> world" where
  "register_traefik_route env context0 w =
     (let context = context0\<lparr>traefik_redis_keys := []\<rparr> in
      if debug context \<and> WERKZEUG_RUN_MAIN env \<noteq> Some ''true'' then
        (Returned, context,
         log_info ''Running in development mode before reloader is started. Skipping registration'' [] w)
      else
        let traefik_config = dict_get (settings context) ''traefik'' (PDict []) in
        if \<not> truthy traefik_config then
          (Returned, context, log_error ''Cannot register route: no traefik config'' [] w)
        else
         (case traefik_config of
            PDict tc \<Rightarrow>
             (let redis_config = dict_get tc ''redis'' (PDict []) in
              if \<not> truthy redis_config then
                (Returned, context, log_error ''Cannot register route: no redis config'' [] w)
              else
               (let local_hostname = gethostname env in
                case py_get (dict_get (settings context) ''server'' (PDict [])) ''port''
                       (SERVER_DEFAULT_PORT env) of
                  Inl e \<Rightarrow> (Raised e, context, w)
                | Inr local_port \<Rightarrow>
                   (let node_name = node_name context;
                        node_url = resolve_node_url tc local_hostname local_port;
                        w1 = log_info (''Registering traefik route for node '' @ [CHR 0x27] @ ''%s''
                                       @ [CHR 0x27]) [node_name] w
                    in
                    case redis_config of
                      PDict rc \<Rightarrow>
                       (case StrictRedis (dict_get rc ''host'' (PStr ''localhost''))
                               (dict_get rc ''password'' PNone) w1 of
                          (store, w2) \<Rightarrow>
                           (let traefik_rootkey = dict_get tc ''rootkey'' (PStr ''traefik'');
                                traefik_rule = dict_get tc ''rule'' (PStr ''PathPrefix(`/`)'');
                                traefik_entrypoint = dict_get tc ''entrypoint'' (PStr ''http'')
                            in
                            case store_set store
                                   (py_str traefik_rootkey @ ''/http/routers/'' @ py_str node_name
                                    @ ''/rule'')
                                   traefik_rule w2 of
                              (Raised e, w3) \<Rightarrow> (Raised e, context, w3)
                            | (Returned, w3) \<Rightarrow>
                           (case store_set store
                                   (py_str traefik_rootkey @ ''/http/routers/'' @ py_str node_name
                                    @ ''/entrypoints/0'')
                                   traefik_entrypoint w3 of
                              (Raised e, w4) \<Rightarrow> (Raised e, context, w4)
                            | (Returned, w4) \<Rightarrow>
                           (case store_set store
                                   (py_str traefik_rootkey @ ''/http/routers/'' @ py_str node_name
                                    @ ''/service'')
                                   (PStr (py_str node_name)) w4 of
                              (Raised e, w5) \<Rightarrow> (Raised e, context, w5)
                            | (Returned, w5) \<Rightarrow>
                           (case store_set store
                                   (py_str traefik_rootkey @ ''/http/services/'' @ py_str node_name
                                    @ ''/loadbalancer/servers/0/url'')
                                   node_url w5 of
                              (Raised e, w6) \<Rightarrow> (Raised e, context, w6)
                            | (Returned, w6) \<Rightarrow>
                               (Returned,
                                context\<lparr>traefik_redis_keys :=
                                  traefik_redis_keys context
                                  @ [py_str traefik_rootkey @ ''/http/routers/'' @ py_str node_name
                                     @ ''/rule'']
                                  @ [py_str traefik_rootkey @ ''/http/routers/'' @ py_str node_name
                                     @ ''/entrypoints/0'']
                                  @ [py_str traefik_rootkey @ ''/http/routers/'' @ py_str node_name
                                     @ ''/service'']
                                  @ [py_str traefik_rootkey @ ''/http/services/'' @ py_str node_name
                                     @ ''/loadbalancer/servers/0/url'']\<rparr>,
                                w6))))))
                    | _ \<Rightarrow> (Raised AttributeError, context, w1))))
          | _ \<Rightarrow> (Raised AttributeError, context, w)))"

text \<open>
  The loop of \<^verbatim>\<open>unregister_traefik_route\<close>: while the list is not empty, pop its last
  key and delete that key from the store. The count that \<^verbatim>\<open>delete\<close> returns is not
  looked at; an exception leaves the loop and the function.
\<close>

function drain_keys :: "redis_client \<Rightarrow> Context \<Rightarrow> world \<Rightarrow> outcome \<times> Context \<times> world" where
  "drain_keys store context w =
     (if traefik_redis_keys context \<noteq> [] then
        (let key = last (traefik_redis_keys context);
             context1 = context\<lparr>traefik_redis_keys := butlast (traefik_redis_keys context)\<rparr>
         in case store_delete store key w of
              (Inl e, w1) \<Rightarrow> (Raised e, context1, w1)
            | (Inr n, w1) \<Rightarrow> drain_keys store context1 w1)
      else (Returned, context, w))"
  by pat_completeness auto
termination
  by (relation "measure (\<lambda>(store, context, w). length (traefik_redis_keys context))") auto

declare drain_keys.simps [simp del]

text \<open>\<^verbatim>\<open>unregister_traefik_route(context)\<close>.\<close>

definition unregister_traefik_route ::
  "environment \<Rightarrow> Context \<Rightarrow> world \<Rightarrow> outcome \<times> Context \<times> world" where
  "unregister_traefik_route env context w =
     (if debug context \<and> WERKZEUG_RUN_MAIN env \<noteq> Some ''true'' then
        (Returned, context,
         log_info ''Running in development mode before reloader is started. Skipping unregistration''
           [] w)
      else
        let traefik_config = dict_get (settings context) ''traefik'' (PDict []) in
        if \<not> truthy traefik_config then
          (Returned, context, log_error ''Cannot unregister route: no traefik config'' [] w)
        else
         (case traefik_config of
            PDict tc \<Rightarrow>
             (let redis_config = dict_get tc ''redis'' (PDict []) in
              if \<not> truthy redis_config then
                (Returned, context, log_error ''Cannot unregister route: no redis config'' [] w)
              else
               (let w1 = log_info (''Unregistering traefik route for node '' @ [CHR 0x27] @ ''%s''
                                   @ [CHR 0x27]) [node_name context] w
                in case redis_config of
                     PDict rc \<Rightarrow>
                      (case StrictRedis (dict_get rc ''host'' (PStr ''localhost''))
                              (dict_get rc ''password'' PNone) w1 of
                         (store, w2) \<Rightarrow> drain_keys store context w2)
                   | _ \<Rightarrow> (Raised AttributeError, context, w1)))
          | _ \<Rightarrow> (Raised AttributeError, context, w)))"

section \<open>Vocabulary of the properties\<close>

text \<open>
  The first guard of both functions: development mode, and the process is not the
  reloader's child.
\<close>

definition development_skip :: "environment \<Rightarrow> Context \<Rightarrow> bool" where
  "development_skip env context = (debug context \<and> WERKZEUG_RUN_MAIN env \<noteq> Some ''true'')"

text \<open>
  The call passes the three guards: the first guard does not fire, the settings hold a
  non-empty proxy section \<^verbatim>\<open>tc\<close>, and \<^verbatim>\<open>tc\<close> holds a non-empty store section
  \<^verbatim>\<open>rc\<close>.
\<close>

definition passes_guards ::
  "environment \<Rightarrow> Context \<Rightarrow> (string \<times> pyval) list \<Rightarrow> (string \<times> pyval) list \<Rightarrow> bool" where
  "passes_guards env context tc rc =
     (\<not> development_skip env context
      \<and> dict_get (settings context) ''traefik'' (PDict []) = PDict tc \<and> tc \<noteq> []
      \<and> dict_get tc ''redis'' (PDict []) = PDict rc \<and> rc \<noteq> [])"

text \<open>
  The second or the third guard fires: the proxy section is missing or empty, or it is
  a mapping whose store section is missing or empty.
\<close>

definition config_missing :: "Context \<Rightarrow> bool" where
  "config_missing context =
     (case dict_get (settings context) ''traefik'' (PDict []) of
        PDict tc \<Rightarrow> tc = [] \<or> \<not> truthy (dict_get tc ''redis'' (PDict []))
      | v \<Rightarrow> \<not> truthy v)"

text \<open>The four keys that lines 78 to 83 append, in that order.\<close>

definition route_keys :: "pyval \<Rightarrow> pyval \<Rightarrow> string list" where
  "route_keys rootkey name =
     [py_str rootkey @ ''/http/routers/'' @ py_str name @ ''/rule'',
      py_str rootkey @ ''/http/routers/'' @ py_str name @ ''/entrypoints/0'',
      py_str rootkey @ ''/http/routers/'' @ py_str name @ ''/service'',
      py_str rootkey @ ''/http/services/'' @ py_str name @ ''/loadbalancer/servers/0/url'']"

text \<open>What a list of calls asked the store to write and to delete, in order.\<close>

fun written_records :: "redis_call list \<Rightarrow> (string \<times> pyval) list" where
  "written_records [] = []"
| "written_records (Store_set k v # cs) = (k, v) # written_records cs"
| "written_records (c # cs) = written_records cs"

fun deleted_keys :: "redis_call list \<Rightarrow> string list" where
  "deleted_keys [] = []"
| "deleted_keys (Store_delete k # cs) = k # deleted_keys cs"
| "deleted_keys (c # cs) = deleted_keys cs"

text \<open>
  The first call that raises when the calls \<^verbatim>\<open>cs\<close> are made one after the other, after
  the calls \<^verbatim>\<open>h\<close>: its position in \<^verbatim>\<open>cs\<close>, or \<^verbatim>\<open>None\<close> when all of them return.
\<close>

fun first_raise ::
  "(redis_call list \<Rightarrow> redis_call \<Rightarrow> bool) \<Rightarrow> redis_call list \<Rightarrow> redis_call list \<Rightarrow> nat option" where
  "first_raise rs h [] = None"
| "first_raise rs h (c # cs) =
     (if rs h c then Some 0 else map_option Suc (first_raise rs (h @ [c]) cs))"

section \<open>Example inputs\<close>

text \<open>
  An instance named \<^verbatim>\<open>node1\<close> on the machine \<^verbatim>\<open>pylon-host\<close>, serving on port
  9090, with a proxy section that names the store at host \<^verbatim>\<open>kv\<close>; stores that are
  empty at the start and that never raise, raise at the third write, or raise when the
  service key is deleted; and the runs of the two functions on them.
\<close>

definition example_env :: environment where
  "example_env = \<lparr>WERKZEUG_RUN_MAIN = None, gethostname = ''pylon-host'', SERVER_DEFAULT_PORT = PInt 8080\<rparr>"

definition example_settings :: "(string \<times> pyval) list" where
  "example_settings =
     [(''server'', PDict [(''name'', PStr ''node1''), (''port'', PInt 9090)]),
      (''traefik'', PDict [(''redis'', PDict [(''host'', PStr ''kv'')]),
                          (''rule'', PStr ''PathPrefix(`/api`)''),
                          (''entrypoint'', PStr ''web'')])]"

definition example_context :: Context where
  "example_context =
     \<lparr>debug = False, settings = example_settings, node_name = PStr ''node1'',
      traefik_redis_keys = []\<rparr>"

definition never_raises :: "redis_call list \<Rightarrow> redis_call \<Rightarrow> bool" where
  "never_raises h c = False"

definition third_write_raises :: "redis_call list \<Rightarrow> redis_call \<Rightarrow> bool" where
  "third_write_raises h c =
     (case c of Store_set k v \<Rightarrow> length (written_records h) = 2 | _ \<Rightarrow> False)"

definition example_world :: "(redis_call list \<Rightarrow> redis_call \<Rightarrow> bool) \<Rightarrow> world" where
  "example_world r = \<lparr>servers = (\<lambda>h. Map.empty), calls = [], logged = [], raises = r\<rparr>"

definition example_context_proxy :: "(string \<times> pyval) list \<Rightarrow> Context" where
  "example_context_proxy tc = example_context\<lparr>settings := [(''traefik'', PDict tc)]\<rparr>"

definition example_keys :: "string list" where
  "example_keys =
     [''traefik/http/routers/node1/rule'', ''traefik/http/routers/node1/entrypoints/0'',
      ''traefik/http/routers/node1/service'',
      ''traefik/http/services/node1/loadbalancer/servers/0/url'']"

definition failed_registration :: "outcome \<times> Context \<times> world" where
  "failed_registration =
     register_traefik_route example_env example_context (example_world third_write_raises)"

definition registered :: "outcome \<times> Context \<times> world" where
  "registered = register_traefik_route example_env example_context (example_world never_raises)"

definition service_delete_raises :: "redis_call list \<Rightarrow> redis_call \<Rightarrow> bool" where
  "service_delete_raises h c = (c = Store_delete ''traefik/http/routers/node1/service'')"

definition interrupted_unregistration :: "outcome \<times> Context \<times> world" where
  "interrupted_unregistration =
     unregister_traefik_route example_env (example_context\<lparr>traefik_redis_keys := example_keys\<rparr>)
       (example_world service_delete_raises)"

section \<open>Auxiliary lemmas\<close>

lemmas ex_defs = example_env_def example_settings_def example_context_def never_raises_def
  third_write_raises_def example_world_def

lemmas run_defs = register_traefik_route_def unregister_traefik_route_def Let_def dict_get_def
  dict_contains_def resolve_node_url_def StrictRedis_def store_set_def store_delete_def
  log_info_def log_error_def

lemma written_records_append [simp]:
  "written_records (xs @ ys) = written_records xs @ written_records ys"
  by (induction xs rule: written_records.induct) auto

lemma deleted_keys_append [simp]:
  "deleted_keys (xs @ ys) = deleted_keys xs @ deleted_keys ys"
  by (induction xs rule: deleted_keys.induct) auto

lemma register_skipped:
  assumes "development_skip env ctx \<or> config_missing ctx"
  shows "fst (register_traefik_route env ctx w) = Returned"
    and "fst (snd (register_traefik_route env ctx w)) = ctx\<lparr>traefik_redis_keys := []\<rparr>"
    and "calls (snd (snd (register_traefik_route env ctx w))) = calls w"
    and "servers (snd (snd (register_traefik_route env ctx w))) = servers w"
  using assms
  by (auto simp add: register_traefik_route_def Let_def config_missing_def development_skip_def
      log_info_def log_error_def split: pyval.splits)

lemma store_delete_cases:
  "store_delete store k w = (r, w') \<Longrightarrow>
   (r = Inl RedisError \<and> raises w (calls w) (Store_delete k) \<and> w' = w\<lparr>calls := calls w @ [Store_delete k]\<rparr>)
   \<or> ((\<exists>n. r = Inr n) \<and> \<not> raises w (calls w) (Store_delete k) \<and>
      w' = w\<lparr>calls := calls w @ [Store_delete k],
                  servers := (servers w)(client_host store := (servers w (client_host store))(k := None))\<rparr>)"
  by (auto simp add: store_delete_def Let_def split: if_splits)

lemma drain_keys_popped:
  "drain_keys store ctx w = (out, ctx', w') \<Longrightarrow>
   \<exists>popped. traefik_redis_keys ctx = traefik_redis_keys ctx' @ popped
     \<and> ctx' = ctx\<lparr>traefik_redis_keys := traefik_redis_keys ctx'\<rparr>
     \<and> calls w' = calls w @ map Store_delete (rev popped)
     \<and> logged w' = logged w \<and> raises w' = raises w
     \<and> (out = Returned \<longrightarrow> traefik_redis_keys ctx' = [])
     \<and> (\<forall>e. out = Raised e \<longrightarrow> e = RedisError \<and> popped \<noteq> [] \<and>
            raises w (calls w @ map Store_delete (rev (tl popped))) (Store_delete (hd popped)))"
proof (induction store ctx w arbitrary: out ctx' w' rule: drain_keys.induct)
  case (1 store ctx w)
  show ?case
  proof (cases "traefik_redis_keys ctx = []")
    case True
    with "1.prems" show ?thesis
      by (simp add: drain_keys.simps)
  next
    case False
    let ?key = "last (traefik_redis_keys ctx)"
    let ?c1 = "ctx\<lparr>traefik_redis_keys := butlast (traefik_redis_keys ctx)\<rparr>"
    obtain r w1 where sd: "store_delete store ?key w = (r, w1)"
      by (cases "store_delete store ?key w")
    show ?thesis
    proof (cases r)
      case (Inl e)
      with sd False "1.prems" have res: "out = Raised e" "ctx' = ?c1" "w' = w1"
        by (simp_all add: drain_keys.simps [of store ctx w] Let_def)
      from sd Inl have e: "e = RedisError" "raises w (calls w) (Store_delete ?key)"
        "w1 = w\<lparr>calls := calls w @ [Store_delete ?key]\<rparr>"
        using store_delete_cases [OF sd] by auto
      show ?thesis
        apply (rule exI [of _ "[?key]"])
        using res e False by simp
    next
      case (Inr n)
      with sd False "1.prems" have rec: "drain_keys store ?c1 w1 = (out, ctx', w')"
        by (simp add: drain_keys.simps [of store ctx w] Let_def)
      from sd Inr have w1: "\<not> raises w (calls w) (Store_delete ?key)"
        "w1 = w\<lparr>calls := calls w @ [Store_delete ?key],
                  servers := (servers w)(client_host store := (servers w (client_host store))(?key := None))\<rparr>"
        using store_delete_cases [OF sd] by auto
      from "1.IH" [OF False refl refl sd [symmetric] Inr rec]
      obtain popped where p: "traefik_redis_keys ?c1 = traefik_redis_keys ctx' @ popped"
        "ctx' = ?c1\<lparr>traefik_redis_keys := traefik_redis_keys ctx'\<rparr>"
        "calls w' = calls w1 @ map Store_delete (rev popped)"
        "logged w' = logged w1" "raises w' = raises w1"
        "out = Returned \<longrightarrow> traefik_redis_keys ctx' = []"
        "\<forall>e. out = Raised e \<longrightarrow> e = RedisError \<and> popped \<noteq> [] \<and>
            raises w1 (calls w1 @ map Store_delete (rev (tl popped))) (Store_delete (hd popped))"
        by blast
      from p(1) have "butlast (traefik_redis_keys ctx) = traefik_redis_keys ctx' @ popped"
        by simp
      with False have ks: "traefik_redis_keys ctx = traefik_redis_keys ctx' @ (popped @ [?key])"
        using append_butlast_last_id [of "traefik_redis_keys ctx"] by simp
      show ?thesis
        apply (rule exI [of _ "popped @ [?key]"])
        using ks p w1 by (auto simp add: hd_append)
    qed
  qed
qed

lemma drain_keys_ok:
  assumes "traefik_redis_keys ctx = ks" and "\<And>h c. \<not> raises w h c"
  shows "drain_keys store ctx w =
    (Returned, ctx\<lparr>traefik_redis_keys := []\<rparr>,
     w\<lparr>calls := calls w @ map Store_delete (rev ks),
       servers := (servers w)(client_host store := servers w (client_host store) |` (- set ks))\<rparr>)"
  using assms
proof (induction ks arbitrary: ctx w rule: rev_induct)
  case Nil
  then show ?case
    by (simp add: drain_keys.simps [of store ctx w])
next
  case (snoc x xs)
  let ?c1 = "ctx\<lparr>traefik_redis_keys := xs\<rparr>"
  let ?w1 = "w\<lparr>calls := calls w @ [Store_delete x],
               servers := (servers w)(client_host store := (servers w (client_host store))(x := None))\<rparr>"
  have step: "drain_keys store ctx w = drain_keys store ?c1 ?w1"
    using snoc.prems by (simp add: drain_keys.simps [of store ctx w] store_delete_def Let_def)
  have "drain_keys store ?c1 ?w1 =
      (Returned, ?c1\<lparr>traefik_redis_keys := []\<rparr>,
       ?w1\<lparr>calls := calls ?w1 @ map Store_delete (rev xs),
          servers := (servers ?w1)(client_host store := servers ?w1 (client_host store) |` (- set xs))\<rparr>)"
    using snoc.prems(2) by (intro snoc.IH) simp_all
  with step show ?case
    by (auto intro!: world.equality simp add: fun_eq_iff restrict_map_def)
qed

lemma unregister_main_ok:
  assumes g: "passes_guards env ctx tc rc"
    and r: "\<And>h c. \<not> raises w h c"
  shows "unregister_traefik_route env ctx w =
    (Returned, ctx\<lparr>traefik_redis_keys := []\<rparr>,
     w\<lparr>logged := logged w @ [Log_info (''Unregistering traefik route for node '' @ [CHR 0x27] @ ''%s'' @ [CHR 0x27]) [node_name ctx]],
       calls := calls w @ [StrictRedis_init (dict_get rc ''host'' (PStr ''localhost'')) (dict_get rc ''password'' PNone)]
          @ map Store_delete (rev (traefik_redis_keys ctx)),
       servers := (servers w)(dict_get rc ''host'' (PStr ''localhost'') :=
          servers w (dict_get rc ''host'' (PStr ''localhost'')) |` (- set (traefik_redis_keys ctx)))\<rparr>)"
proof -
  from g have d: "\<not> (debug ctx \<and> WERKZEUG_RUN_MAIN env \<noteq> Some ''true'')"
    and t: "dict_get (settings ctx) ''traefik'' (PDict []) = PDict tc" "tc \<noteq> []"
    and c: "dict_get tc ''redis'' (PDict []) = PDict rc" "rc \<noteq> []"
    by (simp_all add: passes_guards_def development_skip_def)
  let ?w1 = "log_info (''Unregistering traefik route for node '' @ [CHR 0x27] @ ''%s'' @ [CHR 0x27]) [node_name ctx] w"
  let ?h = "dict_get rc ''host'' (PStr ''localhost'')"
  let ?p = "dict_get rc ''password'' PNone"
  have u: "unregister_traefik_route env ctx w =
      drain_keys \<lparr>client_host = ?h, client_password = ?p\<rparr> ctx
        (?w1\<lparr>calls := calls ?w1 @ [StrictRedis_init ?h ?p]\<rparr>)"
    using d t c by (auto simp add: unregister_traefik_route_def Let_def StrictRedis_def)
  show ?thesis
    unfolding u
    by (subst drain_keys_ok [OF refl]) (simp_all add: r log_info_def)
qed

lemma unregister_main_unfold:
  assumes g: "passes_guards env ctx tc rc"
  shows "unregister_traefik_route env ctx w =
      drain_keys \<lparr>client_host = dict_get rc ''host'' (PStr ''localhost''),
                   client_password = dict_get rc ''password'' PNone\<rparr> ctx
        (w\<lparr>logged := logged w @ [Log_info (''Unregistering traefik route for node '' @ [CHR 0x27] @ ''%s'' @ [CHR 0x27]) [node_name ctx]],
           calls := calls w @ [StrictRedis_init (dict_get rc ''host'' (PStr ''localhost'')) (dict_get rc ''password'' PNone)]\<rparr>)"
proof -
  from g have d: "\<not> (debug ctx \<and> WERKZEUG_RUN_MAIN env \<noteq> Some ''true'')"
    and t: "dict_get (settings ctx) ''traefik'' (PDict []) = PDict tc" "tc \<noteq> []"
    and c: "dict_get tc ''redis'' (PDict []) = PDict rc" "rc \<noteq> []"
    by (simp_all add: passes_guards_def development_skip_def)
  show ?thesis
    using d t c by (auto simp add: unregister_traefik_route_def Let_def StrictRedis_def log_info_def)
qed

lemma unregister_skipped:
  assumes "development_skip env ctx \<or> config_missing ctx"
  shows "fst (unregister_traefik_route env ctx w) = Returned"
    and "fst (snd (unregister_traefik_route env ctx w)) = ctx"
    and "calls (snd (snd (unregister_traefik_route env ctx w))) = calls w"
    and "servers (snd (snd (unregister_traefik_route env ctx w))) = servers w"
  using assms
  by (auto simp add: unregister_traefik_route_def Let_def config_missing_def development_skip_def
      log_info_def log_error_def split: pyval.splits)

lemma register_main_result:
  assumes g: "passes_guards env ctx tc rc"
    and s: "dict_get (settings ctx) ''server'' (PDict []) = PDict sc"
    and r: "\<And>h c. \<not> raises w h c"
  shows "register_traefik_route env ctx w =
    (Returned,
     ctx\<lparr>traefik_redis_keys :=
        [py_str (dict_get tc ''rootkey'' (PStr ''traefik'')) @ ''/http/routers/'' @ py_str (node_name ctx) @ ''/rule'',
         py_str (dict_get tc ''rootkey'' (PStr ''traefik'')) @ ''/http/routers/'' @ py_str (node_name ctx) @ ''/entrypoints/0'',
         py_str (dict_get tc ''rootkey'' (PStr ''traefik'')) @ ''/http/routers/'' @ py_str (node_name ctx) @ ''/service'',
         py_str (dict_get tc ''rootkey'' (PStr ''traefik'')) @ ''/http/services/'' @ py_str (node_name ctx) @ ''/loadbalancer/servers/0/url'']\<rparr>,
     w\<lparr>logged := logged w @ [Log_info (''Registering traefik route for node '' @ [CHR 0x27] @ ''%s'' @ [CHR 0x27]) [node_name ctx]],
       calls := calls w @
         [StrictRedis_init (dict_get rc ''host'' (PStr ''localhost'')) (dict_get rc ''password'' PNone),
          Store_set (py_str (dict_get tc ''rootkey'' (PStr ''traefik'')) @ ''/http/routers/'' @ py_str (node_name ctx) @ ''/rule'')
            (dict_get tc ''rule'' (PStr ''PathPrefix(`/`)'')),
          Store_set (py_str (dict_get tc ''rootkey'' (PStr ''traefik'')) @ ''/http/routers/'' @ py_str (node_name ctx) @ ''/entrypoints/0'')
            (dict_get tc ''entrypoint'' (PStr ''http'')),
          Store_set (py_str (dict_get tc ''rootkey'' (PStr ''traefik'')) @ ''/http/routers/'' @ py_str (node_name ctx) @ ''/service'')
            (PStr (py_str (node_name ctx))),
          Store_set (py_str (dict_get tc ''rootkey'' (PStr ''traefik'')) @ ''/http/services/'' @ py_str (node_name ctx) @ ''/loadbalancer/servers/0/url'')
            (resolve_node_url tc (gethostname env) (dict_get sc ''port'' (SERVER_DEFAULT_PORT env)))],
       servers := (servers w)(dict_get rc ''host'' (PStr ''localhost'') :=
          (servers w (dict_get rc ''host'' (PStr ''localhost'')))
            (py_str (dict_get tc ''rootkey'' (PStr ''traefik'')) @ ''/http/routers/'' @ py_str (node_name ctx) @ ''/rule''
               \<mapsto> dict_get tc ''rule'' (PStr ''PathPrefix(`/`)''),
             py_str (dict_get tc ''rootkey'' (PStr ''traefik'')) @ ''/http/routers/'' @ py_str (node_name ctx) @ ''/entrypoints/0''
               \<mapsto> dict_get tc ''entrypoint'' (PStr ''http''),
             py_str (dict_get tc ''rootkey'' (PStr ''traefik'')) @ ''/http/routers/'' @ py_str (node_name ctx) @ ''/service''
               \<mapsto> PStr (py_str (node_name ctx)),
             py_str (dict_get tc ''rootkey'' (PStr ''traefik'')) @ ''/http/services/'' @ py_str (node_name ctx) @ ''/loadbalancer/servers/0/url''
               \<mapsto> resolve_node_url tc (gethostname env) (dict_get sc ''port'' (SERVER_DEFAULT_PORT env))))\<rparr>)"
proof -
  from g have d: "\<not> (debug ctx \<and> WERKZEUG_RUN_MAIN env \<noteq> Some ''true'')"
    and t: "dict_get (settings ctx) ''traefik'' (PDict []) = PDict tc" "tc \<noteq> []"
    and c: "dict_get tc ''redis'' (PDict []) = PDict rc" "rc \<noteq> []"
    by (simp_all add: passes_guards_def development_skip_def)
  show ?thesis
    using d t c s r
    by (auto simp add: register_traefik_route_def Let_def StrictRedis_def store_set_def log_info_def)
qed

lemma deleted_keys_map_delete [simp]: "deleted_keys (map Store_delete ks) = ks"
  by (induction ks) simp_all

lemma written_records_map_delete [simp]: "written_records (map Store_delete ks) = []"
  by (induction ks) simp_all

lemma register_returned_main:
  assumes "passes_guards env ctx tc rc"
    and "register_traefik_route env ctx w = (Returned, ctx', w')"
  shows "ctx' = ctx\<lparr>traefik_redis_keys :=
           route_keys (dict_get tc ''rootkey'' (PStr ''traefik'')) (node_name ctx)\<rparr>"
    and "map fst (written_records (calls w')) = map fst (written_records (calls w)) @
           route_keys (dict_get tc ''rootkey'' (PStr ''traefik'')) (node_name ctx)"
    and "deleted_keys (calls w') = deleted_keys (calls w)"
  using assms
  by (auto simp add: register_traefik_route_def Let_def StrictRedis_def store_set_def
      passes_guards_def development_skip_def route_keys_def log_info_def
      split: if_splits pyval.splits sum.splits prod.splits outcome.splits)

lemma drain_keys_empty:
  "traefik_redis_keys ctx = [] \<Longrightarrow> drain_keys store ctx w = (Returned, ctx, w)"
  by (simp add: drain_keys.simps [of store ctx w])

lemma unregister_no_keys:
  assumes "traefik_redis_keys ctx = []"
    and "unregister_traefik_route env ctx w = (out, ctx', w')"
  shows "ctx' = ctx" and "servers w' = servers w" and "deleted_keys (calls w') = deleted_keys (calls w)"
  using assms
  by (auto simp add: unregister_traefik_route_def Let_def StrictRedis_def log_info_def log_error_def
      drain_keys_empty split: if_splits pyval.splits)

lemma passes_guards_keys [simp]:
  "passes_guards env (ctx\<lparr>traefik_redis_keys := ks\<rparr>) tc rc = passes_guards env ctx tc rc"
  by (simp add: passes_guards_def development_skip_def)

lemma failed_registration_eval:
  "failed_registration =
     (Raised RedisError, example_context,
      \<lparr>servers = (\<lambda>h. Map.empty)(PStr ''kv'' :=
           [''traefik/http/routers/node1/rule'' \<mapsto> PStr ''PathPrefix(`/api`)'',
            ''traefik/http/routers/node1/entrypoints/0'' \<mapsto> PStr ''web'']),
       calls = [StrictRedis_init (PStr ''kv'') PNone,
                Store_set ''traefik/http/routers/node1/rule'' (PStr ''PathPrefix(`/api`)''),
                Store_set ''traefik/http/routers/node1/entrypoints/0'' (PStr ''web''),
                Store_set ''traefik/http/routers/node1/service'' (PStr ''node1'')],
       logged = [Log_info (''Registering traefik route for node '' @ [CHR 0x27] @ ''%s'' @ [CHR 0x27])
                   [PStr ''node1'']],
       raises = third_write_raises\<rparr>)"
  by (simp add: failed_registration_def example_env_def example_settings_def example_context_def
      example_world_def third_write_raises_def run_defs)

lemma registered_eval:
  "registered =
     (Returned, example_context\<lparr>traefik_redis_keys := example_keys\<rparr>,
      \<lparr>servers = (\<lambda>h. Map.empty)(PStr ''kv'' :=
           [''traefik/http/routers/node1/rule'' \<mapsto> PStr ''PathPrefix(`/api`)'',
            ''traefik/http/routers/node1/entrypoints/0'' \<mapsto> PStr ''web'',
            ''traefik/http/routers/node1/service'' \<mapsto> PStr ''node1'',
            ''traefik/http/services/node1/loadbalancer/servers/0/url'' \<mapsto>
              PStr ''http://pylon-host:9090'']),
       calls = [StrictRedis_init (PStr ''kv'') PNone,
                Store_set ''traefik/http/routers/node1/rule'' (PStr ''PathPrefix(`/api`)''),
                Store_set ''traefik/http/routers/node1/entrypoints/0'' (PStr ''web''),
                Store_set ''traefik/http/routers/node1/service'' (PStr ''node1''),
                Store_set ''traefik/http/services/node1/loadbalancer/servers/0/url''
                  (PStr ''http://pylon-host:9090'')],
       logged = [Log_info (''Registering traefik route for node '' @ [CHR 0x27] @ ''%s'' @ [CHR 0x27])
                   [PStr ''node1'']],
       raises = never_raises\<rparr>)"
  by (simp add: registered_def example_env_def example_settings_def example_context_def
      example_world_def never_raises_def example_keys_def run_defs str_int_def nat_digits.simps
      digit_char_def)

lemma interrupted_unregistration_eval:
  "interrupted_unregistration =
     (Raised RedisError,
      example_context\<lparr>traefik_redis_keys :=
        [''traefik/http/routers/node1/rule'', ''traefik/http/routers/node1/entrypoints/0'']\<rparr>,
      \<lparr>servers = (\<lambda>h. Map.empty)(PStr ''kv'' := Map.empty),
       calls = [StrictRedis_init (PStr ''kv'') PNone,
                Store_delete ''traefik/http/services/node1/loadbalancer/servers/0/url'',
                Store_delete ''traefik/http/routers/node1/service''],
       logged = [Log_info (''Unregistering traefik route for node '' @ [CHR 0x27] @ ''%s'' @ [CHR 0x27])
                   [PStr ''node1'']],
       raises = service_delete_raises\<rparr>)"
  by (simp add: interrupted_unregistration_def example_env_def example_settings_def
      example_context_def example_world_def service_delete_raises_def example_keys_def run_defs
      drain_keys.simps)

lemma first_raise_less: "first_raise rs h cs = Some n \<Longrightarrow> n < length cs"
  by (induction cs arbitrary: h n) (auto split: if_splits)

lemma first_raise_never: "(\<And>h c. \<not> rs h c) \<Longrightarrow> first_raise rs h cs = None"
  by (induction cs arbitrary: h) simp_all

lemma drain_keys_first_raise:
  assumes "traefik_redis_keys ctx = ks"
  shows "drain_keys store ctx w =
    (case first_raise (raises w) (calls w) (map Store_delete (rev ks)) of
       None \<Rightarrow>
         (Returned, ctx\<lparr>traefik_redis_keys := []\<rparr>,
          w\<lparr>calls := calls w @ map Store_delete (rev ks),
            servers := (servers w)(client_host store := servers w (client_host store) |` (- set ks))\<rparr>)
     | Some n \<Rightarrow>
         (Raised RedisError, ctx\<lparr>traefik_redis_keys := take (length ks - Suc n) ks\<rparr>,
          w\<lparr>calls := calls w @ map Store_delete (take (Suc n) (rev ks)),
            servers := (servers w)(client_host store :=
              servers w (client_host store) |` (- set (take n (rev ks))))\<rparr>))"
  using assms
proof (induction ks arbitrary: ctx w rule: rev_induct)
  case Nil
  then show ?case
    by (auto intro!: world.equality simp add: drain_keys_empty fun_eq_iff)
next
  case (snoc x xs)
  let ?c1 = "ctx\<lparr>traefik_redis_keys := xs\<rparr>"
  let ?w1 = "w\<lparr>calls := calls w @ [Store_delete x],
               servers := (servers w)(client_host store := (servers w (client_host store))(x := None))\<rparr>"
  show ?case
  proof (cases "raises w (calls w) (Store_delete x)")
    case True
    then have "drain_keys store ctx w =
        (Raised RedisError, ?c1, w\<lparr>calls := calls w @ [Store_delete x]\<rparr>)"
      using snoc.prems by (simp add: drain_keys.simps [of store ctx w] store_delete_def Let_def)
    with True show ?thesis
      by (auto intro!: world.equality simp add: fun_eq_iff)
  next
    case False
    then have step: "drain_keys store ctx w = drain_keys store ?c1 ?w1"
      using snoc.prems by (simp add: drain_keys.simps [of store ctx w] store_delete_def Let_def)
    have ih: "drain_keys store ?c1 ?w1 =
      (case first_raise (raises ?w1) (calls ?w1) (map Store_delete (rev xs)) of
         None \<Rightarrow>
           (Returned, ?c1\<lparr>traefik_redis_keys := []\<rparr>,
            ?w1\<lparr>calls := calls ?w1 @ map Store_delete (rev xs),
              servers := (servers ?w1)(client_host store := servers ?w1 (client_host store) |` (- set xs))\<rparr>)
       | Some n \<Rightarrow>
           (Raised RedisError, ?c1\<lparr>traefik_redis_keys := take (length xs - Suc n) xs\<rparr>,
            ?w1\<lparr>calls := calls ?w1 @ map Store_delete (take (Suc n) (rev xs)),
              servers := (servers ?w1)(client_host store :=
                servers ?w1 (client_host store) |` (- set (take n (rev xs))))\<rparr>))"
      by (rule snoc.IH) simp
    show ?thesis
    proof (cases "first_raise (raises w) (calls w @ [Store_delete x]) (map Store_delete (rev xs))")
      case None
      with False step ih show ?thesis
        by (auto intro!: world.equality simp add: fun_eq_iff restrict_map_def)
    next
      case (Some n)
      then have "n < length xs"
        using first_raise_less [OF Some] by simp
      with Some False step ih show ?thesis
        by (auto intro!: world.equality simp add: fun_eq_iff restrict_map_def)
    qed
  qed
qed

lemma register_main_first_raise:
  fixes env ctx w tc rc sc
  defines "R \<equiv> py_str (dict_get tc ''rootkey'' (PStr ''traefik''))"
    and "N \<equiv> py_str (node_name ctx)"
    and "host \<equiv> dict_get rc ''host'' (PStr ''localhost'')"
  defines "recs \<equiv>
      [(R @ ''/http/routers/'' @ N @ ''/rule'', dict_get tc ''rule'' (PStr ''PathPrefix(`/`)'')),
       (R @ ''/http/routers/'' @ N @ ''/entrypoints/0'', dict_get tc ''entrypoint'' (PStr ''http'')),
       (R @ ''/http/routers/'' @ N @ ''/service'', PStr N),
       (R @ ''/http/services/'' @ N @ ''/loadbalancer/servers/0/url'',
        resolve_node_url tc (gethostname env) (dict_get sc ''port'' (SERVER_DEFAULT_PORT env)))]"
    and "h0 \<equiv> calls w @ [StrictRedis_init host (dict_get rc ''password'' PNone)]"
  assumes g: "passes_guards env ctx tc rc"
    and s: "dict_get (settings ctx) ''server'' (PDict []) = PDict sc"
    and f: "first_raise (raises w) h0 (map (\<lambda>(k, v). Store_set k v) recs) = Some n"
  shows "register_traefik_route env ctx w =
    (Raised RedisError, ctx\<lparr>traefik_redis_keys := []\<rparr>,
     w\<lparr>logged := logged w @ [Log_info (''Registering traefik route for node '' @ [CHR 0x27] @ ''%s'' @ [CHR 0x27]) [node_name ctx]],
       calls := h0 @ map (\<lambda>(k, v). Store_set k v) (take (Suc n) recs),
       servers := (servers w)(host := servers w host ++ map_of (rev (take n recs)))\<rparr>)"
proof -
  from g have d: "\<not> (debug ctx \<and> WERKZEUG_RUN_MAIN env \<noteq> Some ''true'')"
    and t: "dict_get (settings ctx) ''traefik'' (PDict []) = PDict tc" "tc \<noteq> []"
    and c: "dict_get tc ''redis'' (PDict []) = PDict rc" "rc \<noteq> []"
    by (simp_all add: passes_guards_def development_skip_def)
  let ?c1 = "Store_set (R @ ''/http/routers/'' @ N @ ''/rule'') (dict_get tc ''rule'' (PStr ''PathPrefix(`/`)''))"
  let ?c2 = "Store_set (R @ ''/http/routers/'' @ N @ ''/entrypoints/0'') (dict_get tc ''entrypoint'' (PStr ''http''))"
  let ?c3 = "Store_set (R @ ''/http/routers/'' @ N @ ''/service'') (PStr N)"
  let ?c4 = "Store_set (R @ ''/http/services/'' @ N @ ''/loadbalancer/servers/0/url'')
        (resolve_node_url tc (gethostname env) (dict_get sc ''port'' (SERVER_DEFAULT_PORT env)))"
  from f consider
      (w1) "n = 0" "raises w h0 ?c1"
    | (w2) "n = 1" "\<not> raises w h0 ?c1" "raises w (h0 @ [?c1]) ?c2"
    | (w3) "n = 2" "\<not> raises w h0 ?c1" "\<not> raises w (h0 @ [?c1]) ?c2"
        "raises w (h0 @ [?c1, ?c2]) ?c3"
    | (w4) "n = 3" "\<not> raises w h0 ?c1" "\<not> raises w (h0 @ [?c1]) ?c2"
        "\<not> raises w (h0 @ [?c1, ?c2]) ?c3" "raises w (h0 @ [?c1, ?c2, ?c3]) ?c4"
    unfolding recs_def by (auto split: if_splits)
  then show ?thesis
  proof cases
    case w1
    then show ?thesis
      using t c s unfolding recs_def h0_def R_def N_def host_def
      by (simp add: d register_traefik_route_def Let_def StrictRedis_def store_set_def log_info_def)
  next
    case w2
    then show ?thesis
      using t c s unfolding recs_def h0_def R_def N_def host_def
      by (simp add: d register_traefik_route_def Let_def StrictRedis_def store_set_def log_info_def)
  next
    case w3
    then show ?thesis
      using t c s unfolding recs_def h0_def R_def N_def host_def
      by (simp add: d register_traefik_route_def Let_def StrictRedis_def store_set_def log_info_def)
  next
    case w4
    then show ?thesis
      using t c s unfolding recs_def h0_def R_def N_def host_def
      by (simp add: d register_traefik_route_def Let_def StrictRedis_def store_set_def log_info_def)
  qed
qed

section \<open>The properties\<close>

subsection \<open>C1: a write that raises\<close>

text \<open>
  Claim C1 says that after a registration in which the third of the four writes raises,
  the key list holds the two keys that were written, and that unregistration then
  deletes those two. The code appends the keys only after all four writes have
  returned. In the example the third write raises: the first two records are in the
  store, the key list is empty, and the unregistration that follows deletes nothing.
\<close>

theorem register_partial_failure_counterexample:
  "fst failed_registration = Raised RedisError
   \<and> written_records (calls (snd (snd failed_registration))) =
       [(''traefik/http/routers/node1/rule'', PStr ''PathPrefix(`/api`)''),
        (''traefik/http/routers/node1/entrypoints/0'', PStr ''web''),
        (''traefik/http/routers/node1/service'', PStr ''node1'')]
   \<and> servers (snd (snd failed_registration)) (PStr ''kv'') ''traefik/http/routers/node1/rule''
       = Some (PStr ''PathPrefix(`/api`)'')
   \<and> servers (snd (snd failed_registration)) (PStr ''kv'')
         ''traefik/http/routers/node1/entrypoints/0'' = Some (PStr ''web'')
   \<and> servers (snd (snd failed_registration)) (PStr ''kv'') ''traefik/http/routers/node1/service''
       = None
   \<and> traefik_redis_keys (fst (snd failed_registration)) = []
   \<and> traefik_redis_keys (fst (snd failed_registration)) \<noteq>
       [''traefik/http/routers/node1/rule'', ''traefik/http/routers/node1/entrypoints/0'']
   \<and> deleted_keys (calls (snd (snd (unregister_traefik_route example_env
         (fst (snd failed_registration)) (snd (snd failed_registration)))))) = []"
  by (simp add: failed_registration_eval)
    (simp add: example_env_def example_settings_def example_context_def run_defs
      drain_keys_empty)

text \<open>
  Claim C1, as the code has it. Take a call on the main path in which the first of the
  four writes to raise is the one after \<^verbatim>\<open>n\<close> writes that returned. Then
  \<^verbatim>\<open>register_traefik_route\<close> raises the store's exception. It has asked for these
  \<^verbatim>\<open>n + 1\<close> writes and no other, the store of the configured host holds the first
  \<^verbatim>\<open>n\<close> records on top of what it held before, and the key list is empty, since the
  keys are appended only after the fourth write. An unregistration that follows, under
  any environment, asks for no deletion and leaves every store as it is: the \<^verbatim>\<open>n\<close>
  records stay in the store.
\<close>

theorem register_raise_leaves_no_keys:
  fixes env env' ctx w tc rc sc n
  defines "R \<equiv> py_str (dict_get tc ''rootkey'' (PStr ''traefik''))"
    and "N \<equiv> py_str (node_name ctx)"
    and "host \<equiv> dict_get rc ''host'' (PStr ''localhost'')"
  defines "recs \<equiv>
      [(R @ ''/http/routers/'' @ N @ ''/rule'', dict_get tc ''rule'' (PStr ''PathPrefix(`/`)'')),
       (R @ ''/http/routers/'' @ N @ ''/entrypoints/0'', dict_get tc ''entrypoint'' (PStr ''http'')),
       (R @ ''/http/routers/'' @ N @ ''/service'', PStr N),
       (R @ ''/http/services/'' @ N @ ''/loadbalancer/servers/0/url'',
        resolve_node_url tc (gethostname env) (dict_get sc ''port'' (SERVER_DEFAULT_PORT env)))]"
    and "h0 \<equiv> calls w @ [StrictRedis_init host (dict_get rc ''password'' PNone)]"
    and "r \<equiv> register_traefik_route env ctx w"
  defines "u \<equiv> unregister_traefik_route env' (fst (snd r)) (snd (snd r))"
  assumes "passes_guards env ctx tc rc"
    and "dict_get (settings ctx) ''server'' (PDict []) = PDict sc"
    and "first_raise (raises w) h0 (map (\<lambda>(k, v). Store_set k v) recs) = Some n"
  shows "fst r = Raised RedisError
    \<and> traefik_redis_keys (fst (snd r)) = []
    \<and> written_records (calls (snd (snd r))) = written_records (calls w) @ take (Suc n) recs
    \<and> servers (snd (snd r)) = (servers w)(host := servers w host ++ map_of (rev (take n recs)))
    \<and> deleted_keys (calls (snd (snd u))) = deleted_keys (calls w)
    \<and> servers (snd (snd u)) = servers (snd (snd r))
    \<and> traefik_redis_keys (fst (snd u)) = []"
proof -
  note reg = register_main_first_raise [OF assms(8-10) [unfolded h0_def recs_def R_def N_def host_def]]
  have 1: "fst r = Raised RedisError" and 2: "traefik_redis_keys (fst (snd r)) = []"
    unfolding r_def by (simp_all add: reg)
  have wr: "written_records (map (\<lambda>(k, v). Store_set k v) xs) = xs" for xs
    by (induction xs) auto
  have 3: "written_records (calls (snd (snd r))) = written_records (calls w) @ take (Suc n) recs"
    unfolding r_def recs_def R_def N_def host_def by (simp add: reg wr del: take_Suc_Cons)
  have 4: "servers (snd (snd r)) = (servers w)(host := servers w host ++ map_of (rev (take n recs)))"
    unfolding r_def recs_def R_def N_def host_def by (simp add: reg)
  have d: "deleted_keys (map (\<lambda>(k, v). Store_set k v) xs) = []" for xs
    by (induction xs) auto
  have 5: "deleted_keys (calls (snd (snd r))) = deleted_keys (calls w)"
    unfolding r_def by (simp add: reg d)
  have "u = (fst u, fst (snd u), snd (snd u))"
    by simp
  from unregister_no_keys [OF 2 this [unfolded u_def], folded u_def] 2 5
  have 6: "deleted_keys (calls (snd (snd u))) = deleted_keys (calls w)"
    "servers (snd (snd u)) = servers (snd (snd r))" "traefik_redis_keys (fst (snd u)) = []"
    by simp_all
  from 1 2 3 4 6 show ?thesis
    by blast
qed

theorem register_raise_leaves_no_keys_witness:
  "first_raise (raises (example_world third_write_raises))
      (calls (example_world third_write_raises) @ [StrictRedis_init (PStr ''kv'') PNone])
      [Store_set ''traefik/http/routers/node1/rule'' (PStr ''PathPrefix(`/api`)''),
       Store_set ''traefik/http/routers/node1/entrypoints/0'' (PStr ''web''),
       Store_set ''traefik/http/routers/node1/service'' (PStr ''node1''),
       Store_set ''traefik/http/services/node1/loadbalancer/servers/0/url''
         (PStr ''http://pylon-host:9090'')] = Some 2
   \<and> fst failed_registration = Raised RedisError
   \<and> traefik_redis_keys (fst (snd failed_registration)) = []
   \<and> written_records (calls (snd (snd failed_registration))) =
       [(''traefik/http/routers/node1/rule'', PStr ''PathPrefix(`/api`)''),
        (''traefik/http/routers/node1/entrypoints/0'', PStr ''web''),
        (''traefik/http/routers/node1/service'', PStr ''node1'')]
   \<and> servers (snd (snd failed_registration)) (PStr ''kv'') =
       [''traefik/http/routers/node1/rule'' \<mapsto> PStr ''PathPrefix(`/api`)'',
        ''traefik/http/routers/node1/entrypoints/0'' \<mapsto> PStr ''web'']
   \<and> deleted_keys (calls (snd (snd (unregister_traefik_route example_env
         (fst (snd failed_registration)) (snd (snd failed_registration)))))) = []
   \<and> servers (snd (snd (unregister_traefik_route example_env
         (fst (snd failed_registration)) (snd (snd failed_registration))))) (PStr ''kv'') =
       [''traefik/http/routers/node1/rule'' \<mapsto> PStr ''PathPrefix(`/api`)'',
        ''traefik/http/routers/node1/entrypoints/0'' \<mapsto> PStr ''web'']"
proof -
  let ?tc = "[(''redis'', PDict [(''host'', PStr ''kv'')]), (''rule'', PStr ''PathPrefix(`/api`)''),
       (''entrypoint'', PStr ''web'')]"
  let ?rc = "[(''host'', PStr ''kv'')]"
  let ?sc = "[(''name'', PStr ''node1''), (''port'', PInt 9090)]"
  have g: "passes_guards example_env example_context ?tc ?rc"
    by (simp add: passes_guards_def development_skip_def ex_defs dict_get_def)
  have s: "dict_get (settings example_context) ''server'' (PDict []) = PDict ?sc"
    by (simp add: ex_defs dict_get_def)
  have f: "first_raise (raises (example_world third_write_raises))
      (calls (example_world third_write_raises) @
         [StrictRedis_init (dict_get ?rc ''host'' (PStr ''localhost'')) (dict_get ?rc ''password'' PNone)])
      (map (\<lambda>(k, v). Store_set k v)
        [(py_str (dict_get ?tc ''rootkey'' (PStr ''traefik'')) @ ''/http/routers/''
            @ py_str (node_name example_context) @ ''/rule'',
          dict_get ?tc ''rule'' (PStr ''PathPrefix(`/`)'')),
         (py_str (dict_get ?tc ''rootkey'' (PStr ''traefik'')) @ ''/http/routers/''
            @ py_str (node_name example_context) @ ''/entrypoints/0'',
          dict_get ?tc ''entrypoint'' (PStr ''http'')),
         (py_str (dict_get ?tc ''rootkey'' (PStr ''traefik'')) @ ''/http/routers/''
            @ py_str (node_name example_context) @ ''/service'',
          PStr (py_str (node_name example_context))),
         (py_str (dict_get ?tc ''rootkey'' (PStr ''traefik'')) @ ''/http/services/''
            @ py_str (node_name example_context) @ ''/loadbalancer/servers/0/url'',
          resolve_node_url ?tc (gethostname example_env)
            (dict_get ?sc ''port'' (SERVER_DEFAULT_PORT example_env)))]) = Some 2"
    by (simp add: example_world_def third_write_raises_def)
  have f': "first_raise (raises (example_world third_write_raises))
      (calls (example_world third_write_raises) @ [StrictRedis_init (PStr ''kv'') PNone])
      [Store_set ''traefik/http/routers/node1/rule'' (PStr ''PathPrefix(`/api`)''),
       Store_set ''traefik/http/routers/node1/entrypoints/0'' (PStr ''web''),
       Store_set ''traefik/http/routers/node1/service'' (PStr ''node1''),
       Store_set ''traefik/http/services/node1/loadbalancer/servers/0/url''
         (PStr ''http://pylon-host:9090'')] = Some 2"
    by (simp add: example_world_def third_write_raises_def)
  from register_raise_leaves_no_keys [OF g s f, of example_env, folded failed_registration_def]
  have "fst failed_registration = Raised RedisError
   \<and> traefik_redis_keys (fst (snd failed_registration)) = []
   \<and> written_records (calls (snd (snd failed_registration))) =
       [(''traefik/http/routers/node1/rule'', PStr ''PathPrefix(`/api`)''),
        (''traefik/http/routers/node1/entrypoints/0'', PStr ''web''),
        (''traefik/http/routers/node1/service'', PStr ''node1'')]
   \<and> servers (snd (snd failed_registration)) (PStr ''kv'') =
       [''traefik/http/routers/node1/rule'' \<mapsto> PStr ''PathPrefix(`/api`)'',
        ''traefik/http/routers/node1/entrypoints/0'' \<mapsto> PStr ''web'']
   \<and> deleted_keys (calls (snd (snd (unregister_traefik_route example_env
         (fst (snd failed_registration)) (snd (snd failed_registration)))))) = []
   \<and> servers (snd (snd (unregister_traefik_route example_env
         (fst (snd failed_registration)) (snd (snd failed_registration))))) (PStr ''kv'') =
       [''traefik/http/routers/node1/rule'' \<mapsto> PStr ''PathPrefix(`/api`)'',
        ''traefik/http/routers/node1/entrypoints/0'' \<mapsto> PStr ''web'']"
    by (simp add: dict_get_def example_context_def example_world_def numeral_2_eq_2)
  with f' show ?thesis
    by blast
qed

subsection \<open>C2: the invariant of the key list\<close>

text \<open>
  Claim C2 says that the key list is empty after every call of
  \<^verbatim>\<open>unregister_traefik_route\<close>, also one that returns early. In the example a
  registration succeeds, the proxy section is then taken out of the settings, and the
  unregistration returns at its second guard with the four keys still in the list.
\<close>

theorem unregister_early_return_counterexample:
  "fst registered = Returned
   \<and> traefik_redis_keys (fst (snd registered)) = example_keys
   \<and> fst (unregister_traefik_route example_env
         ((fst (snd registered))\<lparr>settings := [(''server'', PDict [(''port'', PInt 9090)])]\<rparr>)
         (snd (snd registered))) = Returned
   \<and> traefik_redis_keys (fst (snd (unregister_traefik_route example_env
         ((fst (snd registered))\<lparr>settings := [(''server'', PDict [(''port'', PInt 9090)])]\<rparr>)
         (snd (snd registered))))) = example_keys
   \<and> example_keys \<noteq> []"
  by (simp add: registered_eval)
    (simp add: example_env_def example_context_def example_keys_def unregister_traefik_route_def
      Let_def dict_get_def log_error_def)

text \<open>
  Claim C2, as the code has it. After a registration that passes the guards and returns,
  the key list holds the four route keys, which are the keys of the writes of that call,
  in the order of the writes. After an unregistration that passes the guards and
  returns, the key list is empty. An unregistration that one of the guards ends returns
  with the context, and so the key list, as it was.
\<close>

theorem registered_key_set_invariant:
  "(passes_guards env ctx tc rc \<and> fst (register_traefik_route env ctx w) = Returned \<longrightarrow>
      traefik_redis_keys (fst (snd (register_traefik_route env ctx w))) =
        route_keys (dict_get tc ''rootkey'' (PStr ''traefik'')) (node_name ctx)
      \<and> map fst (written_records (calls (snd (snd (register_traefik_route env ctx w))))) =
        map fst (written_records (calls w)) @
        traefik_redis_keys (fst (snd (register_traefik_route env ctx w))))
   \<and> (passes_guards env ctx tc rc \<and> fst (unregister_traefik_route env ctx w) = Returned \<longrightarrow>
      traefik_redis_keys (fst (snd (unregister_traefik_route env ctx w))) = [])
   \<and> (development_skip env ctx \<or> config_missing ctx \<longrightarrow>
      fst (unregister_traefik_route env ctx w) = Returned
      \<and> fst (snd (unregister_traefik_route env ctx w)) = ctx)"
proof (intro conjI impI)
  assume a: "passes_guards env ctx tc rc \<and> fst (register_traefik_route env ctx w) = Returned"
  then have r: "register_traefik_route env ctx w =
      (Returned, fst (snd (register_traefik_route env ctx w)), snd (snd (register_traefik_route env ctx w)))"
    by (simp add: prod_eq_iff)
  from a have g: "passes_guards env ctx tc rc"
    by simp
  show k: "traefik_redis_keys (fst (snd (register_traefik_route env ctx w))) =
        route_keys (dict_get tc ''rootkey'' (PStr ''traefik'')) (node_name ctx)"
    using arg_cong [OF register_returned_main(1) [OF g r], of traefik_redis_keys] by simp
  show "map fst (written_records (calls (snd (snd (register_traefik_route env ctx w))))) =
        map fst (written_records (calls w)) @
        traefik_redis_keys (fst (snd (register_traefik_route env ctx w)))"
    using register_returned_main(2) [OF g r] k by simp
next
  assume a: "passes_guards env ctx tc rc \<and> fst (unregister_traefik_route env ctx w) = Returned"
  then have g: "passes_guards env ctx tc rc"
    by simp
  let ?u = "unregister_traefik_route env ctx w"
  from a have "?u = (Returned, fst (snd ?u), snd (snd ?u))"
    by (simp add: prod_eq_iff)
  then have "drain_keys \<lparr>client_host = dict_get rc ''host'' (PStr ''localhost''),
                   client_password = dict_get rc ''password'' PNone\<rparr> ctx
        (w\<lparr>logged := logged w @ [Log_info (''Unregistering traefik route for node '' @ [CHR 0x27] @ ''%s'' @ [CHR 0x27]) [node_name ctx]],
           calls := calls w @ [StrictRedis_init (dict_get rc ''host'' (PStr ''localhost'')) (dict_get rc ''password'' PNone)]\<rparr>)
        = (Returned, fst (snd ?u), snd (snd ?u))"
    by (simp only: unregister_main_unfold [OF g])
  from drain_keys_popped [OF this]
  show "traefik_redis_keys (fst (snd ?u)) = []"
    by blast
next
  assume "development_skip env ctx \<or> config_missing ctx"
  then show "fst (unregister_traefik_route env ctx w) = Returned"
    and "fst (snd (unregister_traefik_route env ctx w)) = ctx"
    by (simp_all add: unregister_skipped)
qed

theorem registered_key_set_invariant_witness:
  "fst registered = Returned
   \<and> traefik_redis_keys (fst (snd registered)) = example_keys
   \<and> map fst (written_records (calls (snd (snd registered)))) = example_keys
   \<and> fst (unregister_traefik_route example_env (fst (snd registered)) (snd (snd registered)))
       = Returned
   \<and> traefik_redis_keys (fst (snd (unregister_traefik_route example_env (fst (snd registered))
        (snd (snd registered))))) = []
   \<and> fst (snd (unregister_traefik_route example_env
         (example_context\<lparr>settings := [(''server'', PDict [(''port'', PInt 9090)])],
           traefik_redis_keys := example_keys\<rparr>)
         (example_world never_raises)))
       = example_context\<lparr>settings := [(''server'', PDict [(''port'', PInt 9090)])],
           traefik_redis_keys := example_keys\<rparr>"
proof -
  let ?tc = "[(''redis'', PDict [(''host'', PStr ''kv'')]), (''rule'', PStr ''PathPrefix(`/api`)''),
       (''entrypoint'', PStr ''web'')]"
  let ?rc = "[(''host'', PStr ''kv'')]"
  let ?c1 = "fst (snd registered)"
  let ?w1 = "snd (snd registered)"
  let ?c2 = "example_context\<lparr>settings := [(''server'', PDict [(''port'', PInt 9090)])],
           traefik_redis_keys := example_keys\<rparr>"
  have g: "passes_guards example_env example_context ?tc ?rc"
    by (simp add: passes_guards_def development_skip_def ex_defs dict_get_def)
  have g1: "passes_guards example_env ?c1 ?tc ?rc"
    using g by (simp add: registered_eval)
  have f: "fst (register_traefik_route example_env example_context (example_world never_raises))
      = Returned"
    using registered_eval by (simp add: registered_def)
  have u: "fst (unregister_traefik_route example_env ?c1 ?w1) = Returned"
    by (simp add: registered_eval)
      (simp add: example_env_def example_settings_def example_context_def example_keys_def
        never_raises_def run_defs drain_keys.simps)
  have m: "development_skip example_env ?c2 \<or> config_missing ?c2"
    by (simp add: config_missing_def dict_get_def)
  have k: "route_keys (dict_get ?tc ''rootkey'' (PStr ''traefik'')) (node_name example_context)
      = example_keys"
    by (simp add: route_keys_def dict_get_def example_context_def example_keys_def)
  from registered_key_set_invariant [of example_env example_context ?tc ?rc "example_world never_raises"]
    g f k
  have a: "traefik_redis_keys ?c1 = example_keys"
    "map fst (written_records (calls ?w1)) = example_keys"
    by (simp_all add: registered_def example_world_def)
  from registered_key_set_invariant [of example_env ?c1 ?tc ?rc ?w1] g1 u
  have b: "traefik_redis_keys (fst (snd (unregister_traefik_route example_env ?c1 ?w1))) = []"
    by blast
  from registered_key_set_invariant [of example_env ?c2 ?tc ?rc "example_world never_raises"] m
  have c: "fst (snd (unregister_traefik_route example_env ?c2 (example_world never_raises))) = ?c2"
    by blast
  from f a b c u show ?thesis
    by (simp add: registered_def)
qed

subsection \<open>C3: the four records\<close>

text \<open>
  Claim C3. When the call passes the three guards, the server section is a mapping and
  the store raises nothing, \<^verbatim>\<open>register_traefik_route\<close> returns, and the writes it asks
  the store for are exactly four, in this order: the rule under
  \<^verbatim>\<open>{rootkey}/http/routers/{node_name}/rule\<close>, the entrypoint under
  \<^verbatim>\<open>{rootkey}/http/routers/{node_name}/entrypoints/0\<close>, the node name under
  \<^verbatim>\<open>{rootkey}/http/routers/{node_name}/service\<close> and the resolved URL under
  \<^verbatim>\<open>{rootkey}/http/services/{node_name}/loadbalancer/servers/0/url\<close>. The store of the
  configured host afterwards is the store before with these four keys set, and no other
  key and no other host has changed.
\<close>

theorem register_writes_four_records:
  fixes env ctx w tc rc sc
  defines "R \<equiv> py_str (dict_get tc ''rootkey'' (PStr ''traefik''))"
    and "N \<equiv> py_str (node_name ctx)"
    and "host \<equiv> dict_get rc ''host'' (PStr ''localhost'')"
    and "w' \<equiv> snd (snd (register_traefik_route env ctx w))"
  assumes "passes_guards env ctx tc rc"
    and "dict_get (settings ctx) ''server'' (PDict []) = PDict sc"
    and "\<And>h c. \<not> raises w h c"
  shows "fst (register_traefik_route env ctx w) = Returned
    \<and> written_records (calls w') = written_records (calls w) @
        [(R @ ''/http/routers/'' @ N @ ''/rule'', dict_get tc ''rule'' (PStr ''PathPrefix(`/`)'')),
         (R @ ''/http/routers/'' @ N @ ''/entrypoints/0'', dict_get tc ''entrypoint'' (PStr ''http'')),
         (R @ ''/http/routers/'' @ N @ ''/service'', PStr N),
         (R @ ''/http/services/'' @ N @ ''/loadbalancer/servers/0/url'',
          resolve_node_url tc (gethostname env) (dict_get sc ''port'' (SERVER_DEFAULT_PORT env)))]
    \<and> servers w' = (servers w)(host := (servers w host)
        (R @ ''/http/routers/'' @ N @ ''/rule'' \<mapsto> dict_get tc ''rule'' (PStr ''PathPrefix(`/`)''),
         R @ ''/http/routers/'' @ N @ ''/entrypoints/0'' \<mapsto> dict_get tc ''entrypoint'' (PStr ''http''),
         R @ ''/http/routers/'' @ N @ ''/service'' \<mapsto> PStr N,
         R @ ''/http/services/'' @ N @ ''/loadbalancer/servers/0/url'' \<mapsto>
           resolve_node_url tc (gethostname env) (dict_get sc ''port'' (SERVER_DEFAULT_PORT env))))"
  unfolding R_def N_def host_def w'_def
  by (simp add: register_main_result [OF assms(5-7)])

theorem register_writes_four_records_witness:
  "passes_guards example_env example_context
      [(''redis'', PDict [(''host'', PStr ''kv'')]), (''rule'', PStr ''PathPrefix(`/api`)''),
       (''entrypoint'', PStr ''web'')]
      [(''host'', PStr ''kv'')]
   \<and> fst (register_traefik_route example_env example_context (example_world never_raises)) = Returned
   \<and> written_records (calls (snd (snd (register_traefik_route example_env example_context
          (example_world never_raises))))) =
       [(''traefik/http/routers/node1/rule'', PStr ''PathPrefix(`/api`)''),
        (''traefik/http/routers/node1/entrypoints/0'', PStr ''web''),
        (''traefik/http/routers/node1/service'', PStr ''node1''),
        (''traefik/http/services/node1/loadbalancer/servers/0/url'', PStr ''http://pylon-host:9090'')]
   \<and> servers (snd (snd (register_traefik_route example_env example_context
          (example_world never_raises)))) (PStr ''kv'') =
       [''traefik/http/routers/node1/rule'' \<mapsto> PStr ''PathPrefix(`/api`)'',
        ''traefik/http/routers/node1/entrypoints/0'' \<mapsto> PStr ''web'',
        ''traefik/http/routers/node1/service'' \<mapsto> PStr ''node1'',
        ''traefik/http/services/node1/loadbalancer/servers/0/url'' \<mapsto> PStr ''http://pylon-host:9090'']"
proof -
  have g: "passes_guards example_env example_context
      [(''redis'', PDict [(''host'', PStr ''kv'')]), (''rule'', PStr ''PathPrefix(`/api`)''),
       (''entrypoint'', PStr ''web'')]
      [(''host'', PStr ''kv'')]"
    by (simp add: passes_guards_def development_skip_def ex_defs dict_get_def)
  have s: "dict_get (settings example_context) ''server'' (PDict []) =
      PDict [(''name'', PStr ''node1''), (''port'', PInt 9090)]"
    by (simp add: ex_defs dict_get_def)
  have r: "\<And>h c. \<not> raises (example_world never_raises) h c"
    by (simp add: ex_defs)
  show ?thesis
    using g register_writes_four_records [OF g s r]
    by (simp add: ex_defs dict_get_def dict_contains_def resolve_node_url_def str_int_def
        nat_digits.simps digit_char_def)
qed

subsection \<open>C4: the precedence of the registered URL\<close>

text \<open>
  Claim C4. On the main path the record under the URL key holds: the value of
  \<^verbatim>\<open>node_url\<close> as it stands in the proxy section when that key is there; otherwise
  \<^verbatim>\<open>http://{node_hostname}:{port}\<close> when \<^verbatim>\<open>node_hostname\<close> is there; otherwise
  \<^verbatim>\<open>http://{local host name}:{port}\<close>. The port is the \<^verbatim>\<open>port\<close> of the server
  section, or the default port when the section has none.
\<close>

theorem registered_url_precedence:
  fixes env ctx w tc rc sc
  defines "port \<equiv> (case map_of sc ''port'' of Some p \<Rightarrow> p | None \<Rightarrow> SERVER_DEFAULT_PORT env)"
    and "registered_url \<equiv>
      servers (snd (snd (register_traefik_route env ctx w))) (dict_get rc ''host'' (PStr ''localhost''))
        (py_str (dict_get tc ''rootkey'' (PStr ''traefik'')) @ ''/http/services/''
         @ py_str (node_name ctx) @ ''/loadbalancer/servers/0/url'')"
  assumes "passes_guards env ctx tc rc"
    and "dict_get (settings ctx) ''server'' (PDict []) = PDict sc"
    and "\<And>h c. \<not> raises w h c"
  shows "(\<forall>u. map_of tc ''node_url'' = Some u \<longrightarrow> registered_url = Some u)
    \<and> (\<forall>hn. map_of tc ''node_url'' = None \<and> map_of tc ''node_hostname'' = Some hn \<longrightarrow>
          registered_url = Some (PStr (''http://'' @ py_str hn @ '':'' @ py_str port)))
    \<and> (map_of tc ''node_url'' = None \<and> map_of tc ''node_hostname'' = None \<longrightarrow>
          registered_url = Some (PStr (''http://'' @ gethostname env @ '':'' @ py_str port)))"
  unfolding port_def registered_url_def
  by (simp add: register_main_result [OF assms(3-5)] resolve_node_url_def dict_contains_def
      dict_get_def)

theorem registered_url_precedence_witness:
  "servers (snd (snd (register_traefik_route example_env
      (example_context_proxy
         [(''redis'', PDict [(''host'', PStr ''kv'')]), (''node_hostname'', PStr ''pylon.internal''),
          (''node_url'', PStr ''https://pylon.example.org/'')])
      (example_world never_raises)))) (PStr ''kv'')
      ''traefik/http/services/node1/loadbalancer/servers/0/url''
     = Some (PStr ''https://pylon.example.org/'')
   \<and> servers (snd (snd (register_traefik_route example_env
      (example_context_proxy
         [(''redis'', PDict [(''host'', PStr ''kv'')]), (''node_hostname'', PStr ''pylon.internal'')])
      (example_world never_raises)))) (PStr ''kv'')
      ''traefik/http/services/node1/loadbalancer/servers/0/url''
     = Some (PStr ''http://pylon.internal:8080'')
   \<and> servers (snd (snd (register_traefik_route example_env example_context
      (example_world never_raises)))) (PStr ''kv'')
      ''traefik/http/services/node1/loadbalancer/servers/0/url''
     = Some (PStr ''http://pylon-host:9090'')"
proof -
  let ?tc1 = "[(''redis'', PDict [(''host'', PStr ''kv'')]), (''node_hostname'', PStr ''pylon.internal''),
          (''node_url'', PStr ''https://pylon.example.org/'')]"
  let ?tc2 = "[(''redis'', PDict [(''host'', PStr ''kv'')]), (''node_hostname'', PStr ''pylon.internal'')]"
  let ?tc3 = "[(''redis'', PDict [(''host'', PStr ''kv'')]), (''rule'', PStr ''PathPrefix(`/api`)''),
       (''entrypoint'', PStr ''web'')]"
  let ?rc = "[(''host'', PStr ''kv'')]"
  have g1: "passes_guards example_env (example_context_proxy ?tc1) ?tc1 ?rc"
    and g2: "passes_guards example_env (example_context_proxy ?tc2) ?tc2 ?rc"
    and g3: "passes_guards example_env example_context ?tc3 ?rc"
    by (simp_all add: passes_guards_def development_skip_def ex_defs example_context_proxy_def
        dict_get_def)
  have s1: "dict_get (settings (example_context_proxy ?tc1)) ''server'' (PDict []) = PDict []"
    and s2: "dict_get (settings (example_context_proxy ?tc2)) ''server'' (PDict []) = PDict []"
    and s3: "dict_get (settings example_context) ''server'' (PDict []) =
      PDict [(''name'', PStr ''node1''), (''port'', PInt 9090)]"
    by (simp_all add: ex_defs example_context_proxy_def dict_get_def)
  have r: "\<And>h c. \<not> raises (example_world never_raises) h c"
    by (simp add: ex_defs)
  show ?thesis
    using registered_url_precedence [OF g1 s1 r] registered_url_precedence [OF g2 s2 r]
      registered_url_precedence [OF g3 s3 r]
    by (simp add: ex_defs example_context_proxy_def dict_get_def str_int_def nat_digits.simps
        digit_char_def)
qed

subsection \<open>C5: unregistration undoes registration\<close>

text \<open>
  Claim C5. On the main path with a store that raises nothing, registration followed by
  unregistration on the resulting context both return; the keys that the registration
  wrote are the four route keys and are in the store after it; the unregistration asks
  for the deletion of exactly these keys, in the reverse of the order in which they were
  written; afterwards none of them is in the store and the key list is empty.
\<close>

theorem unregister_deletes_what_register_wrote:
  fixes env ctx w tc rc sc
  defines "keys \<equiv> route_keys (dict_get tc ''rootkey'' (PStr ''traefik'')) (node_name ctx)"
    and "host \<equiv> dict_get rc ''host'' (PStr ''localhost'')"
    and "r \<equiv> register_traefik_route env ctx w"
  defines "u \<equiv> unregister_traefik_route env (fst (snd r)) (snd (snd r))"
  assumes "passes_guards env ctx tc rc"
    and "dict_get (settings ctx) ''server'' (PDict []) = PDict sc"
    and "\<And>h c. \<not> raises w h c"
  shows "fst r = Returned \<and> fst u = Returned
    \<and> map fst (written_records (calls (snd (snd r)))) = map fst (written_records (calls w)) @ keys
    \<and> (\<forall>k \<in> set keys. servers (snd (snd r)) host k \<noteq> None)
    \<and> deleted_keys (calls (snd (snd u))) = deleted_keys (calls w) @ rev keys
    \<and> (\<forall>k \<in> set keys. servers (snd (snd u)) host k = None)
    \<and> traefik_redis_keys (fst (snd u)) = []"
proof -
  note reg = register_main_result [OF assms(5-7)]
  have g': "passes_guards env (fst (snd r)) tc rc"
    unfolding r_def using assms(5) by (simp add: reg)
  have n': "\<And>h c. \<not> raises (snd (snd r)) h c"
    unfolding r_def using assms(7) by (simp add: reg)
  note unreg = unregister_main_ok [OF g' n']
  have 1: "fst r = Returned"
    unfolding r_def by (simp add: reg)
  have 2: "fst u = Returned"
    unfolding u_def by (simp add: unreg)
  have 3: "map fst (written_records (calls (snd (snd r)))) = map fst (written_records (calls w)) @ keys"
    unfolding r_def keys_def by (simp add: reg route_keys_def)
  have 4: "\<forall>k \<in> set keys. servers (snd (snd r)) host k \<noteq> None"
    unfolding r_def keys_def host_def by (simp add: reg route_keys_def)
  have k: "traefik_redis_keys (fst (snd r)) = keys"
    unfolding r_def keys_def by (simp add: reg route_keys_def)
  have d: "deleted_keys (calls (snd (snd r))) = deleted_keys (calls w)"
    unfolding r_def by (simp add: reg)
  have 5: "deleted_keys (calls (snd (snd u))) = deleted_keys (calls w) @ rev keys"
    unfolding u_def by (simp add: unreg k d)
  have 6: "\<forall>k \<in> set keys. servers (snd (snd u)) host k = None"
    unfolding u_def host_def by (simp add: unreg k)
  have 7: "traefik_redis_keys (fst (snd u)) = []"
    unfolding u_def by (simp add: unreg)
  from 1 2 3 4 5 6 7 show ?thesis
    by blast
qed

theorem unregister_deletes_what_register_wrote_witness:
  "fst registered = Returned
   \<and> fst (unregister_traefik_route example_env (fst (snd registered)) (snd (snd registered)))
       = Returned
   \<and> map fst (written_records (calls (snd (snd registered)))) = example_keys
   \<and> deleted_keys (calls (snd (snd (unregister_traefik_route example_env (fst (snd registered))
        (snd (snd registered)))))) = rev example_keys
   \<and> servers (snd (snd (unregister_traefik_route example_env (fst (snd registered))
        (snd (snd registered))))) (PStr ''kv'') ''traefik/http/routers/node1/rule'' = None
   \<and> servers (snd (snd (unregister_traefik_route example_env (fst (snd registered))
        (snd (snd registered))))) (PStr ''kv'') ''traefik/http/routers/node1/entrypoints/0'' = None
   \<and> servers (snd (snd (unregister_traefik_route example_env (fst (snd registered))
        (snd (snd registered))))) (PStr ''kv'') ''traefik/http/routers/node1/service'' = None
   \<and> servers (snd (snd (unregister_traefik_route example_env (fst (snd registered))
        (snd (snd registered))))) (PStr ''kv'')
        ''traefik/http/services/node1/loadbalancer/servers/0/url'' = None"
proof -
  let ?tc = "[(''redis'', PDict [(''host'', PStr ''kv'')]), (''rule'', PStr ''PathPrefix(`/api`)''),
       (''entrypoint'', PStr ''web'')]"
  let ?rc = "[(''host'', PStr ''kv'')]"
  have g: "passes_guards example_env example_context ?tc ?rc"
    by (simp add: passes_guards_def development_skip_def ex_defs dict_get_def)
  have s: "dict_get (settings example_context) ''server'' (PDict []) =
      PDict [(''name'', PStr ''node1''), (''port'', PInt 9090)]"
    by (simp add: ex_defs dict_get_def)
  have r: "\<And>h c. \<not> raises (example_world never_raises) h c"
    by (simp add: ex_defs)
  have k: "route_keys (dict_get ?tc ''rootkey'' (PStr ''traefik'')) (node_name example_context)
      = example_keys"
    by (simp add: route_keys_def dict_get_def example_context_def example_keys_def)
  have h: "dict_get ?rc ''host'' (PStr ''localhost'') = PStr ''kv''"
    by (simp add: dict_get_def)
  have e: "calls (example_world never_raises) = []"
    by (simp add: example_world_def)
  from unregister_deletes_what_register_wrote [OF g s r]
  show ?thesis
    unfolding k h e registered_def [symmetric]
    by (simp add: example_keys_def)
qed

subsection \<open>C6: the loop that empties the key list\<close>

text \<open>
  Claim C6 says that the loop empties the key list whatever deletions fail. A deletion
  that raises leaves the loop: in the example the deletion of the service key raises,
  and the two keys before it stay in the list and are never tried.
\<close>

theorem drain_aborted_by_raise_counterexample:
  "traefik_redis_keys (example_context\<lparr>traefik_redis_keys := example_keys\<rparr>) = example_keys
   \<and> fst interrupted_unregistration = Raised RedisError
   \<and> traefik_redis_keys (fst (snd interrupted_unregistration)) =
       [''traefik/http/routers/node1/rule'', ''traefik/http/routers/node1/entrypoints/0'']
   \<and> traefik_redis_keys (fst (snd interrupted_unregistration)) \<noteq> []
   \<and> deleted_keys (calls (snd (snd interrupted_unregistration))) =
       [''traefik/http/services/node1/loadbalancer/servers/0/url'',
        ''traefik/http/routers/node1/service'']"
  by (simp add: interrupted_unregistration_eval)

text \<open>
  Claim C6, as the code has it. On the main path \<^verbatim>\<open>unregister_traefik_route\<close> asks
  for the deletion of the keys of the list from the last one backwards. When none of
  these deletions raises, the call returns, each key has been asked for once, the list
  is empty and none of the keys is in the store, whatever the store held: a deletion
  that removes nothing does not stop the loop. When the first deletion to raise is the
  one after \<^verbatim>\<open>n\<close> deletions that returned, the call raises the store's exception; it
  has asked for these \<^verbatim>\<open>n + 1\<close> deletions, each once, and for none after the one that
  raised; the key of that one is out of the list and the keys before it are still in
  the list; the store has lost the \<^verbatim>\<open>n\<close> keys whose deletion returned and nothing
  else.
\<close>

theorem drain_stops_at_first_raise:
  fixes env ctx w tc rc
  defines "ks \<equiv> traefik_redis_keys ctx"
    and "host \<equiv> dict_get rc ''host'' (PStr ''localhost'')"
    and "u \<equiv> unregister_traefik_route env ctx w"
  defines "h0 \<equiv> calls w @ [StrictRedis_init host (dict_get rc ''password'' PNone)]"
    and "dels \<equiv> map Store_delete (rev ks)"
  assumes "passes_guards env ctx tc rc"
  shows "(first_raise (raises w) h0 dels = None \<longrightarrow>
          fst u = Returned \<and> traefik_redis_keys (fst (snd u)) = []
          \<and> calls (snd (snd u)) = h0 @ dels
          \<and> servers (snd (snd u)) = (servers w)(host := servers w host |` (- set ks)))
    \<and> (\<forall>n. first_raise (raises w) h0 dels = Some n \<longrightarrow>
          n < length ks \<and> fst u = Raised RedisError
          \<and> traefik_redis_keys (fst (snd u)) = take (length ks - Suc n) ks
          \<and> calls (snd (snd u)) = h0 @ take (Suc n) dels
          \<and> servers (snd (snd u)) = (servers w)(host := servers w host |` (- set (take n (rev ks)))))
    \<and> ((\<forall>h c. \<not> raises w h c) \<longrightarrow> first_raise (raises w) h0 dels = None)"
proof -
  let ?store = "\<lparr>client_host = host, client_password = dict_get rc ''password'' PNone\<rparr>"
  let ?w1 = "w\<lparr>logged := logged w @ [Log_info (''Unregistering traefik route for node '' @ [CHR 0x27] @ ''%s'' @ [CHR 0x27]) [node_name ctx]],
           calls := h0\<rparr>"
  have un: "u = drain_keys ?store ctx ?w1"
    unfolding u_def h0_def host_def by (rule unregister_main_unfold [OF assms(6)])
  have "drain_keys ?store ctx ?w1 =
    (case first_raise (raises w) h0 dels of
       None \<Rightarrow>
         (Returned, ctx\<lparr>traefik_redis_keys := []\<rparr>,
          ?w1\<lparr>calls := h0 @ dels,
            servers := (servers w)(host := servers w host |` (- set ks))\<rparr>)
     | Some n \<Rightarrow>
         (Raised RedisError, ctx\<lparr>traefik_redis_keys := take (length ks - Suc n) ks\<rparr>,
          ?w1\<lparr>calls := h0 @ map Store_delete (take (Suc n) (rev ks)),
            servers := (servers w)(host := servers w host |` (- set (take n (rev ks))))\<rparr>))"
    by (subst drain_keys_first_raise [OF refl]) (simp add: ks_def dels_def split: option.split)
  then have ud: "u =
    (case first_raise (raises w) h0 dels of
       None \<Rightarrow>
         (Returned, ctx\<lparr>traefik_redis_keys := []\<rparr>,
          ?w1\<lparr>calls := h0 @ dels,
            servers := (servers w)(host := servers w host |` (- set ks))\<rparr>)
     | Some n \<Rightarrow>
         (Raised RedisError, ctx\<lparr>traefik_redis_keys := take (length ks - Suc n) ks\<rparr>,
          ?w1\<lparr>calls := h0 @ map Store_delete (take (Suc n) (rev ks)),
            servers := (servers w)(host := servers w host |` (- set (take n (rev ks))))\<rparr>))"
    by (simp only: un)
  have a: "first_raise (raises w) h0 dels = None \<longrightarrow>
          fst u = Returned \<and> traefik_redis_keys (fst (snd u)) = []
          \<and> calls (snd (snd u)) = h0 @ dels
          \<and> servers (snd (snd u)) = (servers w)(host := servers w host |` (- set ks))"
    by (simp add: ud)
  have b: "\<forall>n. first_raise (raises w) h0 dels = Some n \<longrightarrow>
          n < length ks \<and> fst u = Raised RedisError
          \<and> traefik_redis_keys (fst (snd u)) = take (length ks - Suc n) ks
          \<and> calls (snd (snd u)) = h0 @ take (Suc n) dels
          \<and> servers (snd (snd u)) = (servers w)(host := servers w host |` (- set (take n (rev ks))))"
  proof (intro allI impI)
    fix n
    assume f: "first_raise (raises w) h0 dels = Some n"
    from first_raise_less [OF f] have "n < length ks"
      by (simp add: dels_def)
    with f show "n < length ks \<and> fst u = Raised RedisError
          \<and> traefik_redis_keys (fst (snd u)) = take (length ks - Suc n) ks
          \<and> calls (snd (snd u)) = h0 @ take (Suc n) dels
          \<and> servers (snd (snd u)) = (servers w)(host := servers w host |` (- set (take n (rev ks))))"
      by (simp add: ud dels_def take_map)
  qed
  have c: "(\<forall>h c. \<not> raises w h c) \<longrightarrow> first_raise (raises w) h0 dels = None"
    by (simp add: first_raise_never)
  from a b c show ?thesis
    by blast
qed

theorem drain_stops_at_first_raise_witness:
  "first_raise (raises (example_world service_delete_raises))
      (calls (example_world service_delete_raises) @ [StrictRedis_init (PStr ''kv'') PNone])
      (map Store_delete (rev example_keys)) = Some 1
   \<and> fst interrupted_unregistration = Raised RedisError
   \<and> traefik_redis_keys (fst (snd interrupted_unregistration)) =
       [''traefik/http/routers/node1/rule'', ''traefik/http/routers/node1/entrypoints/0'']
   \<and> calls (snd (snd interrupted_unregistration)) =
       [StrictRedis_init (PStr ''kv'') PNone,
        Store_delete ''traefik/http/services/node1/loadbalancer/servers/0/url'',
        Store_delete ''traefik/http/routers/node1/service'']
   \<and> first_raise (raises (snd (snd registered)))
      (calls (snd (snd registered)) @ [StrictRedis_init (PStr ''kv'') PNone])
      (map Store_delete (rev example_keys)) = None
   \<and> fst (unregister_traefik_route example_env (fst (snd registered)) (snd (snd registered)))
       = Returned
   \<and> traefik_redis_keys (fst (snd (unregister_traefik_route example_env (fst (snd registered))
        (snd (snd registered))))) = []
   \<and> deleted_keys (calls (snd (snd (unregister_traefik_route example_env (fst (snd registered))
        (snd (snd registered)))))) = rev example_keys"
proof -
  let ?tc = "[(''redis'', PDict [(''host'', PStr ''kv'')]), (''rule'', PStr ''PathPrefix(`/api`)''),
       (''entrypoint'', PStr ''web'')]"
  let ?rc = "[(''host'', PStr ''kv'')]"
  let ?c = "example_context\<lparr>traefik_redis_keys := example_keys\<rparr>"
  let ?w = "example_world service_delete_raises"
  let ?c1 = "fst (snd registered)"
  let ?w1 = "snd (snd registered)"
  have g: "passes_guards example_env ?c ?tc ?rc"
    by (simp add: passes_guards_def development_skip_def ex_defs dict_get_def)
  have g1: "passes_guards example_env ?c1 ?tc ?rc"
    using g by (simp add: registered_eval)
  have h: "dict_get ?rc ''host'' (PStr ''localhost'') = PStr ''kv''"
    "dict_get ?rc ''password'' PNone = PNone"
    by (simp_all add: dict_get_def)
  have k: "traefik_redis_keys ?c = example_keys" "traefik_redis_keys ?c1 = example_keys"
    by (simp_all add: registered_eval)
  have f: "first_raise (raises ?w) (calls ?w @ [StrictRedis_init (PStr ''kv'') PNone])
      (map Store_delete (rev example_keys)) = Some 1"
    by (simp add: example_world_def service_delete_raises_def example_keys_def)
  have n: "first_raise (raises ?w1) (calls ?w1 @ [StrictRedis_init (PStr ''kv'') PNone])
      (map Store_delete (rev example_keys)) = None"
    by (simp add: registered_eval never_raises_def first_raise_never)
  from drain_stops_at_first_raise [OF g, of ?w, unfolded h k,
      folded interrupted_unregistration_def] f
  have a: "fst interrupted_unregistration = Raised RedisError"
    "traefik_redis_keys (fst (snd interrupted_unregistration)) = take (length example_keys - Suc 1) example_keys"
    "calls (snd (snd interrupted_unregistration)) =
       (calls ?w @ [StrictRedis_init (PStr ''kv'') PNone]) @ take (Suc 1) (map Store_delete (rev example_keys))"
    by blast+
  from drain_stops_at_first_raise [OF g1, of ?w1, unfolded h k] n
  have b: "fst (unregister_traefik_route example_env ?c1 ?w1) = Returned"
    "traefik_redis_keys (fst (snd (unregister_traefik_route example_env ?c1 ?w1))) = []"
    "calls (snd (snd (unregister_traefik_route example_env ?c1 ?w1))) =
       (calls ?w1 @ [StrictRedis_init (PStr ''kv'') PNone]) @ map Store_delete (rev example_keys)"
    by blast+
  have d: "deleted_keys (calls ?w1) = []"
    by (simp add: registered_eval)
  from a have a': "traefik_redis_keys (fst (snd interrupted_unregistration)) =
       [''traefik/http/routers/node1/rule'', ''traefik/http/routers/node1/entrypoints/0'']"
    "calls (snd (snd interrupted_unregistration)) =
       [StrictRedis_init (PStr ''kv'') PNone,
        Store_delete ''traefik/http/services/node1/loadbalancer/servers/0/url'',
        Store_delete ''traefik/http/routers/node1/service'']"
    by (simp_all add: example_keys_def example_world_def)
  from b(3) d have b': "deleted_keys (calls (snd (snd (unregister_traefik_route example_env ?c1 ?w1))))
      = rev example_keys"
    by simp
  from f a(1) a' n b(1,2) b' show ?thesis
    by blast
qed

subsection \<open>C7: missing configuration at unregistration\<close>

text \<open>
  Claim C7. When the proxy section or, inside it, the store section is missing or empty,
  \<^verbatim>\<open>unregister_traefik_route\<close> returns with the context exactly as it was, so a
  non-empty key list stays non-empty; it makes no call on the store client and changes
  no store. Unless the development-mode guard has already ended the call, it logs one
  error: that there is no traefik config, or that there is no redis config.
\<close>

theorem unregister_missing_config_keeps_keys:
  fixes env ctx w
  defines "u \<equiv> unregister_traefik_route env ctx w"
  assumes "config_missing ctx"
  shows "fst u = Returned \<and> fst (snd u) = ctx
    \<and> calls (snd (snd u)) = calls w \<and> servers (snd (snd u)) = servers w
    \<and> (\<not> development_skip env ctx \<longrightarrow>
         logged (snd (snd u)) = logged w @
           [Log_error (if truthy (dict_get (settings ctx) ''traefik'' (PDict []))
                       then ''Cannot unregister route: no redis config''
                       else ''Cannot unregister route: no traefik config'') []])"
  using assms(2) unfolding u_def
  by (auto simp add: unregister_traefik_route_def Let_def config_missing_def development_skip_def
      log_info_def log_error_def split: pyval.splits)

theorem unregister_missing_config_keeps_keys_witness:
  "config_missing (example_context\<lparr>settings := [(''server'', PDict [(''port'', PInt 9090)])],
      traefik_redis_keys := [''traefik/http/routers/node1/rule'']\<rparr>)
   \<and> fst (unregister_traefik_route example_env
        (example_context\<lparr>settings := [(''server'', PDict [(''port'', PInt 9090)])],
           traefik_redis_keys := [''traefik/http/routers/node1/rule'']\<rparr>)
        (example_world never_raises)) = Returned
   \<and> traefik_redis_keys (fst (snd (unregister_traefik_route example_env
        (example_context\<lparr>settings := [(''server'', PDict [(''port'', PInt 9090)])],
           traefik_redis_keys := [''traefik/http/routers/node1/rule'']\<rparr>)
        (example_world never_raises)))) = [''traefik/http/routers/node1/rule'']
   \<and> calls (snd (snd (unregister_traefik_route example_env
        (example_context\<lparr>settings := [(''server'', PDict [(''port'', PInt 9090)])],
           traefik_redis_keys := [''traefik/http/routers/node1/rule'']\<rparr>)
        (example_world never_raises)))) = []
   \<and> logged (snd (snd (unregister_traefik_route example_env
        (example_context\<lparr>settings := [(''server'', PDict [(''port'', PInt 9090)])],
           traefik_redis_keys := [''traefik/http/routers/node1/rule'']\<rparr>)
        (example_world never_raises)))) = [Log_error ''Cannot unregister route: no traefik config'' []]"
proof -
  let ?c = "example_context\<lparr>settings := [(''server'', PDict [(''port'', PInt 9090)])],
      traefik_redis_keys := [''traefik/http/routers/node1/rule'']\<rparr>"
  have m: "config_missing ?c"
    by (simp add: config_missing_def dict_get_def)
  have d: "\<not> development_skip example_env ?c"
    by (simp add: development_skip_def example_context_def)
  show ?thesis
    using m d unregister_missing_config_keeps_keys [OF m, of example_env "example_world never_raises"]
    by (simp add: example_world_def dict_get_def)
qed

subsection \<open>C8: the development-mode guard\<close>

text \<open>
  Claim C8. With the debug flag set and \<^verbatim>\<open>WERKZEUG_RUN_MAIN\<close> not equal to
  \<^verbatim>\<open>"true"\<close>, both functions return without building a client and without any
  call on the store: the list of calls and the stores are as before.
\<close>

theorem development_mode_no_store_io:
  assumes "debug ctx" and "WERKZEUG_RUN_MAIN env \<noteq> Some ''true''"
  shows "fst (register_traefik_route env ctx w) = Returned
    \<and> calls (snd (snd (register_traefik_route env ctx w))) = calls w
    \<and> servers (snd (snd (register_traefik_route env ctx w))) = servers w
    \<and> fst (unregister_traefik_route env ctx w) = Returned
    \<and> calls (snd (snd (unregister_traefik_route env ctx w))) = calls w
    \<and> servers (snd (snd (unregister_traefik_route env ctx w))) = servers w"
  using assms
  by (simp add: register_traefik_route_def unregister_traefik_route_def log_info_def)

theorem development_mode_no_store_io_witness:
  "debug (example_context\<lparr>debug := True\<rparr>) \<and> WERKZEUG_RUN_MAIN example_env \<noteq> Some ''true''
   \<and> calls (snd (snd (register_traefik_route example_env (example_context\<lparr>debug := True\<rparr>)
        (example_world never_raises)))) = []
   \<and> calls (snd (snd (unregister_traefik_route example_env (example_context\<lparr>debug := True\<rparr>)
        (example_world never_raises)))) = []"
proof -
  have d: "debug (example_context\<lparr>debug := True\<rparr>)"
    by simp
  have e: "WERKZEUG_RUN_MAIN example_env \<noteq> Some ''true''"
    by (simp add: example_env_def)
  show ?thesis
    using d e development_mode_no_store_io [OF d e, of "example_world never_raises"]
    by (simp add: example_world_def)
qed

subsection \<open>C9: the key list is reset first\<close>

text \<open>
  Claim C9. \<^verbatim>\<open>register_traefik_route\<close> empties the key list before it looks at any
  guard: the call gives the same result as on a context whose list is already empty.
  So when one of the three guards ends the call, it returns with an empty list,
  whatever an earlier call had left in it.
\<close>

theorem register_resets_key_set_first:
  "register_traefik_route env ctx w = register_traefik_route env (ctx\<lparr>traefik_redis_keys := []\<rparr>) w
   \<and> (development_skip env ctx \<or> config_missing ctx \<longrightarrow>
        fst (register_traefik_route env ctx w) = Returned
        \<and> traefik_redis_keys (fst (snd (register_traefik_route env ctx w))) = [])"
proof -
  have "register_traefik_route env ctx w = register_traefik_route env (ctx\<lparr>traefik_redis_keys := []\<rparr>) w"
    by (simp add: register_traefik_route_def)
  moreover have "development_skip env ctx \<or> config_missing ctx \<longrightarrow>
        fst (register_traefik_route env ctx w) = Returned
        \<and> traefik_redis_keys (fst (snd (register_traefik_route env ctx w))) = []"
    by (simp add: register_skipped)
  ultimately show ?thesis
    by simp
qed

theorem register_resets_key_set_first_witness:
  "config_missing (example_context\<lparr>settings := [(''server'', PDict [(''port'', PInt 9090)])],
      traefik_redis_keys := [''traefik/http/routers/node1/rule'']\<rparr>)
   \<and> traefik_redis_keys (fst (snd (register_traefik_route example_env
        (example_context\<lparr>settings := [(''server'', PDict [(''port'', PInt 9090)])],
           traefik_redis_keys := [''traefik/http/routers/node1/rule'']\<rparr>)
        (example_world never_raises)))) = []"
proof -
  let ?c = "example_context\<lparr>settings := [(''server'', PDict [(''port'', PInt 9090)])],
      traefik_redis_keys := [''traefik/http/routers/node1/rule'']\<rparr>"
  have m: "config_missing ?c"
    by (simp add: config_missing_def dict_get_def)
  from register_resets_key_set_first [of example_env ?c "example_world never_raises"] m
  have "traefik_redis_keys (fst (snd (register_traefik_route example_env ?c
      (example_world never_raises)))) = []"
    by blast
  with m show ?thesis
    by blast
qed

subsection \<open>C10: defaults of the proxy section\<close>

text \<open>
  Claim C10. On the main path with a store that raises nothing the call returns, and a
  proxy section without \<^verbatim>\<open>rootkey\<close> has its four records written under
  \<^verbatim>\<open>traefik/http/...\<close>, one without \<^verbatim>\<open>rule\<close> has the rule record hold
  the string PathPrefix(`/`), and one without \<^verbatim>\<open>entrypoint\<close> has the entrypoint
  record hold \<^verbatim>\<open>http\<close>.
\<close>

theorem register_substitutes_defaults:
  fixes env ctx w tc rc sc
  defines "R \<equiv> py_str (dict_get tc ''rootkey'' (PStr ''traefik''))"
    and "N \<equiv> py_str (node_name ctx)"
    and "r \<equiv> register_traefik_route env ctx w"
  defines "stored \<equiv> servers (snd (snd r)) (dict_get rc ''host'' (PStr ''localhost''))"
  assumes "passes_guards env ctx tc rc"
    and "dict_get (settings ctx) ''server'' (PDict []) = PDict sc"
    and "\<And>h c. \<not> raises w h c"
  shows "fst r = Returned
    \<and> (map_of tc ''rootkey'' = None \<longrightarrow>
          map fst (written_records (calls (snd (snd r)))) = map fst (written_records (calls w)) @
            [''traefik/http/routers/'' @ N @ ''/rule'', ''traefik/http/routers/'' @ N @ ''/entrypoints/0'',
             ''traefik/http/routers/'' @ N @ ''/service'',
             ''traefik/http/services/'' @ N @ ''/loadbalancer/servers/0/url''])
    \<and> (map_of tc ''rule'' = None \<longrightarrow>
          stored (R @ ''/http/routers/'' @ N @ ''/rule'') = Some (PStr ''PathPrefix(`/`)''))
    \<and> (map_of tc ''entrypoint'' = None \<longrightarrow>
          stored (R @ ''/http/routers/'' @ N @ ''/entrypoints/0'') = Some (PStr ''http''))"
  unfolding R_def N_def r_def stored_def
  by (simp add: register_main_result [OF assms(5-7)] dict_get_def)

theorem register_substitutes_defaults_witness:
  "fst (register_traefik_route example_env
      (example_context_proxy [(''redis'', PDict [(''host'', PStr ''kv'')])])
      (example_world never_raises)) = Returned
   \<and> map fst (written_records (calls (snd (snd (register_traefik_route example_env
      (example_context_proxy [(''redis'', PDict [(''host'', PStr ''kv'')])])
      (example_world never_raises)))))) =
      [''traefik/http/routers/node1/rule'', ''traefik/http/routers/node1/entrypoints/0'',
       ''traefik/http/routers/node1/service'',
       ''traefik/http/services/node1/loadbalancer/servers/0/url'']
   \<and> servers (snd (snd (register_traefik_route example_env
      (example_context_proxy [(''redis'', PDict [(''host'', PStr ''kv'')])])
      (example_world never_raises)))) (PStr ''kv'') ''traefik/http/routers/node1/rule''
      = Some (PStr ''PathPrefix(`/`)'')
   \<and> servers (snd (snd (register_traefik_route example_env
      (example_context_proxy [(''redis'', PDict [(''host'', PStr ''kv'')])])
      (example_world never_raises)))) (PStr ''kv'') ''traefik/http/routers/node1/entrypoints/0''
      = Some (PStr ''http'')"
proof -
  let ?tc = "[(''redis'', PDict [(''host'', PStr ''kv'')])]"
  let ?rc = "[(''host'', PStr ''kv'')]"
  have g: "passes_guards example_env (example_context_proxy ?tc) ?tc ?rc"
    by (simp add: passes_guards_def development_skip_def ex_defs example_context_proxy_def
        dict_get_def)
  have s: "dict_get (settings (example_context_proxy ?tc)) ''server'' (PDict []) = PDict []"
    by (simp add: ex_defs example_context_proxy_def dict_get_def)
  have r: "\<And>h c. \<not> raises (example_world never_raises) h c"
    by (simp add: ex_defs)
  show ?thesis
    using register_substitutes_defaults [OF g s r]
    by (simp add: ex_defs example_context_proxy_def dict_get_def)
qed

end
